theory Spec2Isabelle
  imports Complex_Main "HOL-Library.Log_Nat"
begin

section \<open>JSON values, responses and the query gateway\<close>

text \<open>
  The backend is a set of Express route handlers over a hosted relational store. A request
  body is the object produced by the JSON body parser; a handler destructures fields out
  of it, so a field that is absent reads as \<open>undefined\<close>. Only scalar JSON values are
  represented; nested objects and arrays are left out. A number stands for an integer
  that a parsed body holds exactly and that the language prints with all its digits
  (below \<open>2^53\<close> in magnitude); fractions and larger numbers are left out.
\<close>

datatype jsval = Undefined | Null | Bool bool | Num int | Str string

type_synonym body = "string \<Rightarrow> jsval"

text \<open>JavaScript truthiness, as tested by \<open>!x\<close>.\<close>

fun truthy :: "jsval \<Rightarrow> bool" where
  "truthy Undefined = False"
| "truthy Null = False"
| "truthy (Bool b) = b"
| "truthy (Num n) = (n \<noteq> 0)"
| "truthy (Str s) = (s \<noteq> [])"

fun digits :: "nat \<Rightarrow> string" where
  "digits n =
     (if n < 10 then [''0123456789'' ! n]
      else digits (n div 10) @ [''0123456789'' ! (n mod 10)])"

declare digits.simps [simp del]

text \<open>
  The text of a value inside a template literal. The store client builds an equality
  filter as \<open>eq.${value}\<close>, so a row matches when its column, as text, is this string.
\<close>

fun js_string :: "jsval \<Rightarrow> string" where
  "js_string Undefined = ''undefined''"
| "js_string Null = ''null''"
| "js_string (Bool b) = (if b then ''true'' else ''false'')"
| "js_string (Num n) = (if n < 0 then CHR ''-'' # digits (nat (- n)) else digits (nat n))"
| "js_string (Str s) = s"

text \<open>
  What a handler leaves behind: a JSON reply with its HTTP status (\<open>res.json\<close> alone is
  status 200), or an exception that no \<open>try\<close> of the handler catches, in which case the
  handler itself sends nothing.
\<close>

datatype outcome = Reply nat "(string \<times> jsval) list" | Uncaught string

definition err :: "nat \<Rightarrow> string \<Rightarrow> outcome" where
  "err code msg = Reply code [(''error'', Str msg)]"

definition msg :: "string \<Rightarrow> outcome" where
  "msg m = Reply 200 [(''message'', Str m)]"

text \<open>
  \<open>.single()\<close> of the store client: the row when exactly one row matches, otherwise
  \<open>data\<close> is null (and \<open>error\<close> is set).
\<close>

definition single :: "'r list \<Rightarrow> 'r option" where
  "single rows = (case rows of [r] \<Rightarrow> Some r | _ \<Rightarrow> None)"

text \<open>\<open>.update(f).eq(col, v)\<close>: every matching row is rewritten, the others stay.\<close>

definition update_where :: "('r \<Rightarrow> bool) \<Rightarrow> ('r \<Rightarrow> 'r) \<Rightarrow> 'r list \<Rightarrow> 'r list" where
  "update_where p f rows = map (\<lambda>r. if p r then f r else r) rows"

text \<open>
  A JSON value written to a nullable text column: \<open>undefined\<close> is dropped from the
  payload and \<open>null\<close> is stored as null.
\<close>

fun to_column :: "jsval \<Rightarrow> string option" where
  "to_column Undefined = None"
| "to_column Null = None"
| "to_column v = Some (js_string v)"

section \<open>Tables\<close>

text \<open>
  Rows carry the columns the handlers read or write. Timestamps are milliseconds since
  the epoch. The second spelling of the verification expiry column is the one written by
  the verify-email handler.
\<close>

record user =
  u_id :: string
  u_username :: string
  u_email :: string
  u_password_hash :: string
  u_role :: string
  u_is_active :: bool
  u_email_verified :: bool
  u_verify_code :: "string option"
  u_verify_code_expires :: "int option"
  u_verification_code_expires :: "int option"
  u_reset_code :: "string option"
  u_reset_code_expires :: "int option"

record application =
  a_id :: string
  a_user_id :: string
  a_full_name :: "string option"
  a_seat :: "string option"
  a_county :: "string option"
  a_constituency :: "string option"
  a_party :: "string option"
  a_motivation :: "string option"
  a_fee :: "string option"
  a_status :: string

record profile =
  p_user_id :: string
  p_full_name :: "string option"
  p_seat :: "string option"
  p_county :: "string option"
  p_constituency :: "string option"
  p_party :: "string option"
  p_bio :: "string option"
  p_is_verified :: bool

record comment =
  c_user_id :: string
  c_target_type :: string
  c_target_id :: string
  c_content :: string

record rating =
  r_user_id :: string
  r_target_type :: string
  r_target_id :: string
  r_rating :: int

record ground_update =
  g_id :: string
  g_user_id :: string
  g_location :: "string option"
  g_category :: "string option"
  g_content :: "string option"
  g_repost_of :: "string option"

record db =
  users :: "user list"
  politician_applications :: "application list"
  politician_profiles :: "profile list"
  comments :: "comment list"
  ratings :: "rating list"
  ground_updates :: "ground_update list"

section \<open>Login\<close>

text \<open>
  \<open>POST /login\<close>, first version. \<open>compare\<close> stands for \<open>bcrypt.compare\<close>, which
  rejects when the password is not a string; the handler's \<open>catch\<close> turns that into
  status 500.
\<close>

definition login :: "(string \<Rightarrow> string \<Rightarrow> bool) \<Rightarrow> db \<Rightarrow> body \<Rightarrow> outcome" where
  "login compare d b =
     (let email = b ''email''; password = b ''password'' in
      if \<not> truthy email \<or> \<not> truthy password
      then err 400 ''Email and password are required''
      else case single (filter (\<lambda>u. u_email u = js_string email) (users d)) of
        None \<Rightarrow> err 401 ''Invalid email or password''
      | Some user \<Rightarrow>
          if \<not> u_is_active user then err 403 ''Account is suspended''
          else (case password of
            Str pw \<Rightarrow>
              if \<not> compare pw (u_password_hash user)
              then err 401 ''Invalid email or password''
              else if \<not> u_email_verified user
              then Reply 200 [(''error'', Str ''Please verify your email first'')]
              else Reply 200
                [(''id'', Str (u_id user)), (''username'', Str (u_username user)),
                 (''email'', Str (u_email user)), (''role'', Str (u_role user))]
          | _ \<Rightarrow> err 500 ''Server error''))"

text \<open>\<open>POST /login\<close>, second version: the same, without the verified-email check.\<close>

definition login_v2 :: "(string \<Rightarrow> string \<Rightarrow> bool) \<Rightarrow> db \<Rightarrow> body \<Rightarrow> outcome" where
  "login_v2 compare d b =
     (let email = b ''email''; password = b ''password'' in
      if \<not> truthy email \<or> \<not> truthy password
      then err 400 ''Email and password are required''
      else case single (filter (\<lambda>u. u_email u = js_string email) (users d)) of
        None \<Rightarrow> err 401 ''Invalid email or password''
      | Some user \<Rightarrow>
          if \<not> u_is_active user then err 403 ''Account is suspended''
          else (case password of
            Str pw \<Rightarrow>
              if \<not> compare pw (u_password_hash user)
              then err 401 ''Invalid email or password''
              else Reply 200
                [(''id'', Str (u_id user)), (''username'', Str (u_username user)),
                 (''email'', Str (u_email user)), (''role'', Str (u_role user))]
          | _ \<Rightarrow> err 500 ''Server error''))"

section \<open>Verification and reset codes\<close>

text \<open>
  \<open>stored !== supplied\<close> for a nullable text column against a JSON value: they are
  strictly equal when both are null or both are the same string.
\<close>

fun strict_eq :: "string option \<Rightarrow> jsval \<Rightarrow> bool" where
  "strict_eq None Null = True"
| "strict_eq (Some s) (Str t) = (s = t)"
| "strict_eq _ _ = False"

text \<open>\<open>new Date(column)\<close> as a time value: a null column gives the epoch.\<close>

fun date_of :: "int option \<Rightarrow> int" where
  "date_of None = 0"
| "date_of (Some t) = t"

definition success :: outcome where
  "success = Reply 200 [(''success'', Bool True)]"

text \<open>
  \<open>POST /verify-email\<close> at time \<open>now\<close>. The update names the column
  \<open>verification_code_expires\<close>, while registration writes and this handler reads
  \<open>verify_code_expires\<close>. The table's declaration is not part of the sources, so
  \<open>has_column\<close> says whether the table has a column of the written name: if it has not,
  the store refuses the whole update; the handler does not look at the store's answer
  and replies with success either way.
\<close>

definition verify_email :: "bool \<Rightarrow> int \<Rightarrow> db \<Rightarrow> body \<Rightarrow> outcome \<times> db" where
  "verify_email has_column now d b =
     (let email = b ''email''; code = b ''code'' in
      case single (filter (\<lambda>u. u_email u = js_string email) (users d)) of
        None \<Rightarrow> (err 400 ''Invalid or expired code'', d)
      | Some user \<Rightarrow>
          if \<not> strict_eq (u_verify_code user) code \<or> now > date_of (u_verify_code_expires user)
          then (err 400 ''Invalid or expired code'', d)
          else (success,
            if has_column
            then d\<lparr>users := update_where (\<lambda>u. u_email u = js_string email)
                   (\<lambda>u. u\<lparr>u_email_verified := True, u_verify_code := None,
                            u_verification_code_expires := None\<rparr>) (users d)\<rparr>
            else d))"

text \<open>
  \<open>POST /reset-password\<close>. \<open>hash\<close> stands for \<open>bcrypt.hash(_, 10)\<close>, which rejects
  when the password is not a string; nothing catches that here.
\<close>

definition reset_password :: "(string \<Rightarrow> string) \<Rightarrow> int \<Rightarrow> db \<Rightarrow> body \<Rightarrow> outcome \<times> db" where
  "reset_password hash now d b =
     (let email = b ''email''; code = b ''code''; password = b ''password'' in
      case single (filter (\<lambda>u. u_email u = js_string email) (users d)) of
        None \<Rightarrow> (Reply 200 [(''error'', Str ''Invalid or expired code'')], d)
      | Some data \<Rightarrow>
          if \<not> strict_eq (u_reset_code data) code \<or> now > date_of (u_reset_code_expires data)
          then (Reply 200 [(''error'', Str ''Invalid or expired code'')], d)
          else (case password of
            Str pw \<Rightarrow>
              (success,
               d\<lparr>users := update_where (\<lambda>u. u_email u = js_string email)
                  (\<lambda>u. u\<lparr>u_password_hash := hash pw, u_reset_code := None,
                           u_reset_code_expires := None\<rparr>) (users d)\<rparr>)
          | _ \<Rightarrow> (Uncaught ''Error: Illegal arguments'', d)))"

section \<open>Politician applications\<close>

text \<open>
  \<open>POST /apply-politician\<close>, first version. \<open>new_id\<close> is the key the store gives the
  inserted row; \<open>refusal\<close> is the store's answer to the insert (a message when it refuses,
  and then nothing is written).
\<close>

definition apply_politician ::
  "string \<Rightarrow> string option \<Rightarrow> db \<Rightarrow> body \<Rightarrow> outcome \<times> db" where
  "apply_politician new_id refusal d b =
     (let user_id = b ''user_id''; full_name = b ''full_name''; seat = b ''seat'';
          county = b ''county''; constituency = b ''constituency''; party = b ''party'';
          motivation = b ''motivation''; fee = b ''fee'' in
      if \<not> truthy user_id \<or> \<not> truthy full_name \<or> \<not> truthy seat \<or> \<not> truthy motivation
         \<or> \<not> truthy fee
      then (err 400 ''Missing required fields'', d)
      else if seat \<noteq> Str ''President'' \<and> \<not> truthy county
      then (err 400 ''County is required for this seat'', d)
      else case single (filter (\<lambda>a. a_user_id a = js_string user_id)
                          (politician_applications d)) of
        Some existing \<Rightarrow> (err 400 ''You have already submitted an application'', d)
      | None \<Rightarrow>
          (case refusal of
            Some m \<Rightarrow> (err 500 m, d)
          | None \<Rightarrow>
              (msg ''Application submitted. Please wait for admin approval.'',
               d\<lparr>politician_applications := politician_applications d @
                  [\<lparr>a_id = new_id, a_user_id = js_string user_id,
                    a_full_name = to_column full_name, a_seat = to_column seat,
                    a_county = to_column county, a_constituency = to_column constituency,
                    a_party = to_column party, a_motivation = to_column motivation,
                    a_fee = to_column fee, a_status = ''pending''\<rparr>]\<rparr>)))"

text \<open>\<open>POST /apply-politician\<close>, second version: the county is always required.\<close>

definition apply_politician_v2 ::
  "string \<Rightarrow> string option \<Rightarrow> db \<Rightarrow> body \<Rightarrow> outcome \<times> db" where
  "apply_politician_v2 new_id refusal d b =
     (let user_id = b ''user_id''; full_name = b ''full_name''; seat = b ''seat'';
          county = b ''county''; constituency = b ''constituency''; party = b ''party'';
          motivation = b ''motivation''; fee = b ''fee'' in
      if \<not> truthy user_id \<or> \<not> truthy full_name \<or> \<not> truthy seat \<or> \<not> truthy county
         \<or> \<not> truthy motivation \<or> \<not> truthy fee
      then (err 400 ''Missing required fields'', d)
      else case single (filter (\<lambda>a. a_user_id a = js_string user_id)
                          (politician_applications d)) of
        Some existing \<Rightarrow> (err 400 ''You have already submitted an application'', d)
      | None \<Rightarrow>
          (case refusal of
            Some m \<Rightarrow> (err 500 m, d)
          | None \<Rightarrow>
              (msg ''Application submitted. Please wait for admin approval.'',
               d\<lparr>politician_applications := politician_applications d @
                  [\<lparr>a_id = new_id, a_user_id = js_string user_id,
                    a_full_name = to_column full_name, a_seat = to_column seat,
                    a_county = to_column county, a_constituency = to_column constituency,
                    a_party = to_column party, a_motivation = to_column motivation,
                    a_fee = to_column fee, a_status = ''pending''\<rparr>]\<rparr>)))"

definition requireAdmin :: "db \<Rightarrow> jsval \<Rightarrow> bool" where
  "requireAdmin d admin_id =
     (case single (filter (\<lambda>u. u_id u = js_string admin_id) (users d)) of
        None \<Rightarrow> False
      | Some data \<Rightarrow> u_role data = ''admin'')"

text \<open>
  Modelled from the spec: the declaration of the \<open>politician_profiles\<close> table is not
  part of the sources, and the handler's \<open>upsert\<close> names no conflict column. The spec has
  the profile upserted keyed by \<open>user_id\<close>: a row of that user takes the new values,
  and a row is added when the user has none.
\<close>

definition upsert_profile :: "profile \<Rightarrow> profile list \<Rightarrow> profile list" where
  "upsert_profile row rows =
     (if filter (\<lambda>p. p_user_id p = p_user_id row) rows = [] then rows @ [row]
      else update_where (\<lambda>p. p_user_id p = p_user_id row) (\<lambda>p. row) rows)"

definition profile_of :: "application \<Rightarrow> profile" where
  "profile_of appData =
     \<lparr>p_user_id = a_user_id appData, p_full_name = a_full_name appData,
      p_seat = a_seat appData, p_county = a_county appData,
      p_constituency = a_constituency appData, p_party = a_party appData,
      p_bio = a_motivation appData, p_is_verified = True\<rparr>"

text \<open>
  \<open>POST /admin/approve-politician\<close>, first version. The three writes are awaited one
  after the other and their answers are not looked at.
\<close>

definition approve_politician :: "db \<Rightarrow> body \<Rightarrow> outcome \<times> db" where
  "approve_politician d b =
     (let application_id = b ''application_id''; admin_id = b ''admin_id'' in
      if \<not> requireAdmin d admin_id then (err 403 ''Admin only'', d)
      else case single (filter (\<lambda>a. a_id a = js_string application_id)
                          (politician_applications d)) of
        None \<Rightarrow> (err 400 ''Invalid application'', d)
      | Some appData \<Rightarrow>
          if a_status appData \<noteq> ''pending'' then (err 400 ''Invalid application'', d)
          else
            (msg ''Approved'',
             d\<lparr>users := update_where (\<lambda>u. u_id u = a_user_id appData)
                  (\<lambda>u. u\<lparr>u_role := ''politician''\<rparr>) (users d),
               politician_profiles :=
                  upsert_profile (profile_of appData) (politician_profiles d),
               politician_applications :=
                  update_where (\<lambda>a. a_id a = js_string application_id)
                    (\<lambda>a. a\<lparr>a_status := ''approved''\<rparr>) (politician_applications d)\<rparr>))"

text \<open>
  \<open>POST /admin/approve-politician\<close>, second version: no admin check, no look at the
  status, and the profile is inserted.
\<close>

definition approve_politician_v2 :: "db \<Rightarrow> body \<Rightarrow> outcome \<times> db" where
  "approve_politician_v2 d b =
     (let application_id = b ''application_id'' in
      if \<not> truthy application_id then (err 400 ''Application ID required'', d)
      else case single (filter (\<lambda>a. a_id a = js_string application_id)
                          (politician_applications d)) of
        None \<Rightarrow> (err 404 ''Application not found'', d)
      | Some appData \<Rightarrow>
          (msg ''Politician approved successfully'',
           d\<lparr>users := update_where (\<lambda>u. u_id u = a_user_id appData)
                (\<lambda>u. u\<lparr>u_role := ''politician''\<rparr>) (users d),
             politician_profiles := politician_profiles d @ [profile_of appData],
             politician_applications :=
                update_where (\<lambda>a. a_id a = js_string application_id)
                  (\<lambda>a. a\<lparr>a_status := ''approved''\<rparr>) (politician_applications d)\<rparr>))"

text \<open>\<open>POST /admin/reject-politician\<close>, first version.\<close>

definition reject_politician :: "db \<Rightarrow> body \<Rightarrow> outcome \<times> db" where
  "reject_politician d b =
     (let application_id = b ''application_id''; admin_id = b ''admin_id'' in
      if \<not> requireAdmin d admin_id then (err 403 ''Admin only'', d)
      else
        (msg ''Rejected'',
         d\<lparr>politician_applications :=
              update_where (\<lambda>a. a_id a = js_string application_id)
                (\<lambda>a. a\<lparr>a_status := ''rejected''\<rparr>) (politician_applications d)\<rparr>))"

text \<open>\<open>POST /admin/reject-politician\<close>, second version.\<close>

definition reject_politician_v2 :: "db \<Rightarrow> body \<Rightarrow> outcome \<times> db" where
  "reject_politician_v2 d b =
     (let application_id = b ''application_id'' in
      (msg ''Application rejected'',
       d\<lparr>politician_applications :=
            update_where (\<lambda>a. a_id a = js_string application_id)
              (\<lambda>a. a\<lparr>a_status := ''rejected''\<rparr>) (politician_applications d)\<rparr>))"

section \<open>Comments and ratings\<close>

text \<open>\<open>text.includes(word)\<close>: the word occurs in the text as a contiguous piece.\<close>

fun str_includes :: "string \<Rightarrow> string \<Rightarrow> bool" where
  "str_includes [] word = (word = [])"
| "str_includes (c # cs) word =
     (take (length word) (c # cs) = word \<or> str_includes cs word)"

definition bannedWords :: "string list" where
  "bannedWords = [''kill'', ''hate'', ''tribe'', ''idiot'']"

text \<open>
  \<open>POST /comment\<close> (the same text in both versions). \<open>toLowerCase\<close> is the string
  method of that name, which only a string has: for any other truthy content the call
  throws outside the handler's \<open>try\<close>. \<open>refusal\<close> is the store's answer to the insert.
\<close>

definition comment_post ::
  "(string \<Rightarrow> string) \<Rightarrow> string option \<Rightarrow> db \<Rightarrow> body \<Rightarrow> outcome \<times> db" where
  "comment_post toLowerCase refusal d b =
     (let user_id = b ''user_id''; target_id = b ''target_id''; content = b ''content'' in
      if \<not> truthy user_id \<or> \<not> truthy target_id \<or> \<not> truthy content
      then (err 400 ''All fields required'', d)
      else case content of
        Str s \<Rightarrow>
          (let text = toLowerCase s in
           if list_ex (\<lambda>word. str_includes text word) bannedWords
           then (err 400 ''Comment violates community rules'', d)
           else case single (filter (\<lambda>u. u_id u = js_string user_id) (users d)) of
             None \<Rightarrow> (err 404 ''User not found'', d)
           | Some user \<Rightarrow>
               (case refusal of
                 Some m \<Rightarrow> (err 500 m, d)
               | None \<Rightarrow>
                   (msg ''Comment posted successfully'',
                    d\<lparr>comments := comments d @
                       [\<lparr>c_user_id = js_string user_id, c_target_type = ''manifesto'',
                         c_target_id = js_string target_id, c_content = s\<rparr>]\<rparr>)))
      | _ \<Rightarrow> (Uncaught ''TypeError: content.toLowerCase is not a function'', d))"

text \<open>
  The number a value is compared as by \<open><\<close> and \<open>>\<close>; \<open>None\<close> is NaN, against which
  every comparison is false. \<open>parse\<close> is the language's reading of a string as a number.
\<close>

fun to_number :: "(string \<Rightarrow> int option) \<Rightarrow> jsval \<Rightarrow> int option" where
  "to_number parse Undefined = None"
| "to_number parse Null = Some 0"
| "to_number parse (Bool c) = Some (if c then 1 else 0)"
| "to_number parse (Num n) = Some n"
| "to_number parse (Str s) = parse s"

fun js_less :: "int option \<Rightarrow> int option \<Rightarrow> bool" where
  "js_less (Some x) (Some y) = (x < y)"
| "js_less _ _ = False"

text \<open>
  Modelled from the spec: the declaration of the \<open>ratings\<close> table is not part of the
  sources, and the handler's \<open>upsert\<close> names no conflict column. The spec has a rating
  unique per user, target type and target: the row of that key takes the new values,
  and a row is added when there is none.
\<close>

definition same_key :: "rating \<Rightarrow> rating \<Rightarrow> bool" where
  "same_key x y =
     (r_user_id x = r_user_id y \<and> r_target_type x = r_target_type y
      \<and> r_target_id x = r_target_id y)"

definition upsert_rating :: "rating \<Rightarrow> rating list \<Rightarrow> rating list" where
  "upsert_rating row rows =
     (if filter (same_key row) rows = [] then rows @ [row]
      else update_where (same_key row) (\<lambda>r. row) rows)"

text \<open>
  \<open>POST /rate\<close> (the same text in both versions). \<open>store_rating\<close> is the store's answer
  to the upsert for the JSON value sent as the rating: a message when it refuses the row,
  otherwise the number it keeps in the rating column.
\<close>

definition rate ::
  "(string \<Rightarrow> int option) \<Rightarrow> (jsval \<Rightarrow> string + int) \<Rightarrow> db \<Rightarrow> body \<Rightarrow> outcome \<times> db" where
  "rate parse store_rating d b =
     (let user_id = b ''user_id''; target_id = b ''target_id''; rating = b ''rating'' in
      if \<not> truthy user_id \<or> \<not> truthy target_id \<or> \<not> truthy rating
      then (err 400 ''Missing fields'', d)
      else if js_less (to_number parse rating) (Some 1)
              \<or> js_less (Some 5) (to_number parse rating)
      then (err 400 ''Rating must be between 1 and 5'', d)
      else case store_rating rating of
        Inl m \<Rightarrow> (err 500 m, d)
      | Inr n \<Rightarrow>
          (msg ''Rating saved'',
           d\<lparr>ratings := upsert_rating
                \<lparr>r_user_id = js_string user_id, r_target_type = ''manifesto'',
                 r_target_id = js_string target_id, r_rating = n\<rparr> (ratings d)\<rparr>))"

subsection \<open>Numbers of the language\<close>

text \<open>
  A number of the language is a binary floating-point number with a 53-bit significand;
  every such number is a rational, and an operation returns the exact result rounded to
  the nearest such number, ties to an even significand. The exponent range is not
  represented: the values below stay far inside it.
\<close>

definition pow2 :: "int \<Rightarrow> rat" where
  "pow2 e = (if 0 \<le> e then 2 ^ nat e else 1 / 2 ^ nat (- e))"

text \<open>For \<open>q > 0\<close>, the exponent \<open>e\<close> with \<open>2^e \<le> q < 2^(e+1)\<close>.\<close>

definition binary_exponent :: "rat \<Rightarrow> int" where
  "binary_exponent q =
     (let d = bitlen (fst (quotient_of q)) - bitlen (snd (quotient_of q)) in
      if pow2 d \<le> q then d else d - 1)"

definition round_half_even :: "rat \<Rightarrow> int" where
  "round_half_even q =
     (let f = \<lfloor>q\<rfloor>; r = q - of_int f in
      if r < 1 / 2 then f else if 1 / 2 < r then f + 1 else if even f then f else f + 1)"

definition double_round :: "rat \<Rightarrow> rat" where
  "double_round q =
     (if q = 0 then 0
      else let e = binary_exponent \<bar>q\<bar> - 52 in
           sgn q * of_int (round_half_even (\<bar>q\<bar> / pow2 e)) * pow2 e)"

definition js_add :: "rat \<Rightarrow> rat \<Rightarrow> rat" where
  "js_add x y = double_round (x + y)"

definition js_div :: "rat \<Rightarrow> rat \<Rightarrow> rat" where
  "js_div x y = double_round (x / y)"

text \<open>
  \<open>x.toFixed(1)\<close> for a number below \<open>10^21\<close> in magnitude: the integer \<open>n\<close> with
  \<open>n / 10\<close> nearest to \<open>x\<close>, the larger one of two, printed with one decimal.
\<close>

definition tenths :: "rat \<Rightarrow> int" where
  "tenths x = \<lfloor>10 * x + 1 / 2\<rfloor>"

definition toFixed1 :: "rat \<Rightarrow> string" where
  "toFixed1 x =
     (let n = nat (tenths \<bar>x\<bar>) in
      (if x < 0 then ''-'' else []) @ digits (n div 10) @ ''.'' @ digits (n mod 10))"

text \<open>
  \<open>GET /ratings/:target_id\<close> (the same text in both versions). \<open>sel_error\<close> is the
  store's answer to the select. The rating column holds integers.
\<close>

definition ratings_summary :: "string option \<Rightarrow> db \<Rightarrow> string \<Rightarrow> outcome" where
  "ratings_summary sel_error d target_id =
     (case sel_error of
        Some m \<Rightarrow> err 500 m
      | None \<Rightarrow>
          (let data = filter (\<lambda>r. r_target_type r = ''manifesto''
                                     \<and> r_target_id r = target_id) (ratings d) in
           if length data = 0 then Reply 200 [(''average'', Num 0), (''count'', Num 0)]
           else
             (let total = foldl (\<lambda>sum r. js_add sum (of_int (r_rating r))) 0 data;
                  avg = toFixed1 (js_div total (of_nat (length data)))
              in Reply 200 [(''average'', Str avg), (''count'', Num (int (length data)))])))"

section \<open>Ground updates\<close>

text \<open>
  \<open>POST /ground-repost\<close> (the same text in both versions). When no single row matches,
  \<open>original\<close> is null and reading \<open>original.location\<close> throws; the handler has no
  \<open>try\<close>. \<open>new_id\<close> and \<open>refusal\<close> are as for the application insert.
\<close>

definition ground_repost ::
  "string \<Rightarrow> string option \<Rightarrow> db \<Rightarrow> body \<Rightarrow> outcome \<times> db" where
  "ground_repost new_id refusal d b =
     (let user_id = b ''user_id''; ground_id = b ''ground_id'' in
      if \<not> truthy user_id \<or> \<not> truthy ground_id then (err 400 ''Missing fields'', d)
      else case single (filter (\<lambda>g. g_id g = js_string ground_id) (ground_updates d)) of
        None \<Rightarrow>
          (Uncaught ''TypeError: Cannot read properties of null'', d)
      | Some original \<Rightarrow>
          (case refusal of
            Some m \<Rightarrow> (err 500 m, d)
          | None \<Rightarrow>
              (msg ''Reposted'',
               d\<lparr>ground_updates := ground_updates d @
                  [\<lparr>g_id = new_id, g_user_id = js_string user_id,
                    g_location = g_location original, g_category = g_category original,
                    g_content = g_content original,
                    g_repost_of = Some (js_string ground_id)\<rparr>]\<rparr>)))"

section \<open>Example data\<close>

text \<open>
  A small store used to run the handlers on concrete requests: an administrator, a voter
  with a pending application, and a stand-in for the password check.
\<close>

definition demo_compare :: "string \<Rightarrow> string \<Rightarrow> bool" where
  "demo_compare pw h = (h = ''bcrypt:'' @ pw)"

definition alice :: user where
  "alice =
     \<lparr>u_id = ''u1'', u_username = ''alice'', u_email = ''a@x.com'',
      u_password_hash = ''bcrypt:pw1'', u_role = ''voter'', u_is_active = True,
      u_email_verified = True, u_verify_code = None, u_verify_code_expires = None,
      u_verification_code_expires = None, u_reset_code = None,
      u_reset_code_expires = None\<rparr>"

definition root_admin :: user where
  "root_admin =
     \<lparr>u_id = ''u0'', u_username = ''root'', u_email = ''root@x.com'',
      u_password_hash = ''bcrypt:pw0'', u_role = ''admin'', u_is_active = True,
      u_email_verified = True, u_verify_code = None, u_verify_code_expires = None,
      u_verification_code_expires = None, u_reset_code = None,
      u_reset_code_expires = None\<rparr>"

definition candidacy :: application where
  "candidacy =
     \<lparr>a_id = ''7'', a_user_id = ''u1'', a_full_name = Some ''Alice A'',
      a_seat = Some ''Governor'', a_county = Some ''Nairobi'', a_constituency = None,
      a_party = Some ''Independent'', a_motivation = Some ''Clean water'',
      a_fee = Some ''5000'', a_status = ''pending''\<rparr>"

definition empty_db :: db where
  "empty_db =
     \<lparr>users = [], politician_applications = [], politician_profiles = [], comments = [],
      ratings = [], ground_updates = []\<rparr>"

definition db_pending :: db where
  "db_pending = empty_db\<lparr>users := [root_admin, alice], politician_applications := [candidacy]\<rparr>"

definition no_fields :: body where
  "no_fields = (\<lambda>k. Undefined)"

definition wrong_login :: body where
  "wrong_login = no_fields(''email'' := Str ''a@x.com'', ''password'' := Str ''guess'')"

definition admin_on_7 :: body where
  "admin_on_7 = no_fields(''application_id'' := Num 7, ''admin_id'' := Str ''u0'')"

definition admin_on_8 :: body where
  "admin_on_8 = no_fields(''application_id'' := Num 8, ''admin_id'' := Str ''u0'')"

definition bob :: user where
  "bob =
     \<lparr>u_id = ''u2'', u_username = ''bob'', u_email = ''b@x.com'',
      u_password_hash = ''bcrypt:pw2'', u_role = ''voter'', u_is_active = True,
      u_email_verified = False, u_verify_code = Some ''123456'',
      u_verify_code_expires = Some 900000, u_verification_code_expires = None,
      u_reset_code = None, u_reset_code_expires = None\<rparr>"

definition verify_bob :: body where
  "verify_bob = no_fields(''email'' := Str ''b@x.com'', ''code'' := Str ''123456'')"

definition report :: ground_update where
  "report =
     \<lparr>g_id = ''g1'', g_user_id = ''u1'', g_location = Some ''Kisumu'',
      g_category = Some ''Roads'', g_content = Some ''Bridge reopened'',
      g_repost_of = None\<rparr>"

definition repost_g1 :: body where
  "repost_g1 = no_fields(''user_id'' := Str ''u2'', ''ground_id'' := Str ''g1'')"

definition repost_g404 :: body where
  "repost_g404 = no_fields(''user_id'' := Str ''u2'', ''ground_id'' := Str ''g404'')"

definition apply_again :: body where
  "apply_again =
     no_fields(''user_id'' := Str ''u1'', ''full_name'' := Str ''Alice A'',
       ''seat'' := Str ''President'', ''motivation'' := Str ''Second try'',
       ''fee'' := Num 5000)"

definition db_approved :: db where
  "db_approved =
     empty_db\<lparr>users := [root_admin, alice\<lparr>u_role := ''politician''\<rparr>],
       politician_profiles := [profile_of candidacy],
       politician_applications := [candidacy\<lparr>a_status := ''approved''\<rparr>]\<rparr>"

definition ascii_lower :: "string \<Rightarrow> string" where
  "ascii_lower s =
     map (\<lambda>c. let n = of_char c :: nat in if 65 \<le> n \<and> n \<le> 90 then char_of (n + 32) else c) s"

definition integer_column :: "jsval \<Rightarrow> string + int" where
  "integer_column v =
     (case v of Num n \<Rightarrow> Inr n | _ \<Rightarrow> Inl ''invalid input syntax for type integer'')"

definition praise :: body where
  "praise =
     no_fields(''user_id'' := Str ''u1'', ''target_id'' := Str ''m1'',
       ''content'' := Str ''Good Plan'', ''target_type'' := Str ''politician'')"

definition five_stars :: body where
  "five_stars =
     no_fields(''user_id'' := Str ''u1'', ''target_id'' := Str ''m1'',
       ''rating'' := Num 5, ''target_type'' := Str ''politician'')"

definition db_rated :: db where
  "db_rated =
     empty_db\<lparr>ratings :=
       [\<lparr>r_user_id = ''u1'', r_target_type = ''manifesto'', r_target_id = ''m1'', r_rating = 4\<rparr>,
        \<lparr>r_user_id = ''u2'', r_target_type = ''manifesto'', r_target_id = ''m1'', r_rating = 5\<rparr>,
        \<lparr>r_user_id = ''u0'', r_target_type = ''manifesto'', r_target_id = ''m1'', r_rating = 5\<rparr>,
        \<lparr>r_user_id = ''u1'', r_target_type = ''manifesto'', r_target_id = ''m2'', r_rating = 1\<rparr>]\<rparr>"

definition db_halves :: db where
  "db_halves =
     empty_db\<lparr>ratings :=
       map (\<lambda>i. \<lparr>r_user_id = CHR ''v'' # digits i, r_target_type = ''manifesto'',
                  r_target_id = ''m3'', r_rating = (if i < 11 then 1 else 2)\<rparr>) [0..<20]
       @ map (\<lambda>i. \<lparr>r_user_id = CHR ''v'' # digits i, r_target_type = ''manifesto'',
                    r_target_id = ''m4'', r_rating = (if i < 3 then 1 else 2)\<rparr>) [0..<4]\<rparr>"

lemmas fixture_defs = demo_compare_def alice_def root_admin_def candidacy_def
  empty_db_def db_pending_def no_fields_def wrong_login_def admin_on_7_def admin_on_8_def
  bob_def verify_bob_def report_def repost_g1_def repost_g404_def apply_again_def
  db_approved_def ascii_lower_def integer_column_def praise_def five_stars_def
  db_rated_def db_halves_def

section \<open>Facts about the gateway\<close>

lemma digits_7_8: "digits 7 = ''7''" "digits 8 = ''8''"
  by (simp_all add: digits.simps)

lemma single_Some_iff: "single rows = Some r \<longleftrightarrow> rows = [r]"
  by (auto simp: single_def split: list.splits)

lemma single_filter_holds: "single (filter p rows) = Some r \<Longrightarrow> p r \<and> r \<in> set rows"
proof -
  assume "single (filter p rows) = Some r"
  then have "filter p rows = [r]" by (simp add: single_Some_iff)
  then have "r \<in> set (filter p rows)" by simp
  then show ?thesis by simp
qed

lemma filter_update_where:
  assumes "\<And>r. p (f r) = p r"
  shows "filter p (update_where p f rows) = map f (filter p rows)"
  using assms by (induction rows) (auto simp: update_where_def)

lemma distinct_key_filter:
  "distinct (map k rows) \<Longrightarrow> length (filter (\<lambda>r. k r = v) rows) \<le> 1"
proof (induction rows)
  case Nil
  then show ?case by simp
next
  case (Cons r rows)
  show ?case
  proof (cases "k r = v")
    case True
    from Cons.prems have "k r \<notin> k ` set rows" by simp
    with True have "\<forall>x\<in>set rows. k x \<noteq> v" by blast
    then have "filter (\<lambda>r. k r = v) rows = []"
      by (simp add: filter_empty_conv)
    with True show ?thesis by simp
  next
    case False
    with Cons show ?thesis by simp
  qed
qed

lemma upsert_profile_one_row:
  assumes "distinct (map p_user_id rows)"
  shows "filter (\<lambda>p. p_user_id p = p_user_id row) (upsert_profile row rows) = [row]"
proof (cases "filter (\<lambda>p. p_user_id p = p_user_id row) rows = []")
  case True
  then show ?thesis by (simp add: upsert_profile_def)
next
  case False
  from distinct_key_filter [OF assms, of "p_user_id row"]
  obtain x where x: "filter (\<lambda>p. p_user_id p = p_user_id row) rows = [x]"
    using False by (cases "filter (\<lambda>p. p_user_id p = p_user_id row) rows") auto
  have "filter (\<lambda>p. p_user_id p = p_user_id row)
          (update_where (\<lambda>p. p_user_id p = p_user_id row) (\<lambda>p. row) rows)
        = map (\<lambda>p. row) (filter (\<lambda>p. p_user_id p = p_user_id row) rows)"
    by (induction rows) (auto simp: update_where_def)
  with x False show ?thesis by (simp add: upsert_profile_def)
qed

lemma distinct_key_single:
  assumes "distinct (map k rows)" and "r \<in> set rows"
  shows "single (filter (\<lambda>x. k x = k r) rows) = Some r"
proof -
  from assms(2) have "r \<in> set (filter (\<lambda>x. k x = k r) rows)" by simp
  moreover from distinct_key_filter [OF assms(1), of "k r"]
  have "length (filter (\<lambda>x. k x = k r) rows) \<le> 1" .
  ultimately have "filter (\<lambda>x. k x = k r) rows = [r]"
    by (cases "filter (\<lambda>x. k x = k r) rows") auto
  then show ?thesis by (simp add: single_Some_iff)
qed

lemma distinct_key_single_None:
  assumes "distinct (map k rows)" and "single (filter (\<lambda>x. k x = v) rows) = None"
  shows "v \<notin> set (map k rows)"
proof
  assume "v \<in> set (map k rows)"
  then obtain r where "r \<in> set rows" "k r = v" by auto
  with distinct_key_single [OF assms(1), of r] assms(2) show False by simp
qed

section \<open>Login and account status\<close>

text \<open>
  Claim C1, as the code has it. For a login request whose email resolves to one account
  and whose password is a non-empty string, in both versions of the handler: when the
  account is active and the password does not verify against the stored hash, the reply
  is the generic 401 \<open>Invalid email or password\<close>, whatever \<open>email_verified\<close> is (the
  verified-email check comes after the password check); when the account is not active,
  the reply is 403 \<open>Account is suspended\<close> whatever the password is (the suspension check
  comes before the password check).
\<close>

theorem login_wrong_password:
  assumes "truthy (b ''email'')" and "b ''password'' = Str pw" and "pw \<noteq> []"
    and "single (filter (\<lambda>u. u_email u = js_string (b ''email'')) (users d)) = Some user"
  shows "(u_is_active user \<and> \<not> compare pw (u_password_hash user) \<longrightarrow>
            login compare d b = err 401 ''Invalid email or password''
          \<and> login_v2 compare d b = err 401 ''Invalid email or password'')
       \<and> (\<not> u_is_active user \<longrightarrow>
            login compare d b = err 403 ''Account is suspended''
          \<and> login_v2 compare d b = err 403 ''Account is suspended'')"
  using assms by (simp add: login_def login_v2_def)

text \<open>
  The theorem at a wrong password for the active account \<open>alice\<close>, here with an
  unverified email.
\<close>

theorem login_wrong_password_witness:
  "truthy (wrong_login ''email'') \<and> wrong_login ''password'' = Str ''guess''
   \<and> single (filter (\<lambda>u. u_email u = js_string (wrong_login ''email''))
        (users (empty_db\<lparr>users := [alice\<lparr>u_email_verified := False\<rparr>]\<rparr>)))
      = Some (alice\<lparr>u_email_verified := False\<rparr>)
   \<and> login demo_compare (empty_db\<lparr>users := [alice\<lparr>u_email_verified := False\<rparr>]\<rparr>) wrong_login
      = err 401 ''Invalid email or password''"
  using login_wrong_password [of wrong_login "''guess''"
      "empty_db\<lparr>users := [alice\<lparr>u_email_verified := False\<rparr>]\<rparr>" "alice\<lparr>u_email_verified := False\<rparr>"
      demo_compare]
  by (simp add: single_def fixture_defs)

text \<open>
  Claim C1 as stated fails: two accounts that differ only in \<open>is_active\<close> get different
  replies to the same wrong password, because the suspension check runs before the
  password is compared.
\<close>

theorem login_suspended_counterexample:
  "login demo_compare (empty_db\<lparr>users := [alice]\<rparr>) wrong_login
     = err 401 ''Invalid email or password''
   \<and> login demo_compare (empty_db\<lparr>users := [alice\<lparr>u_is_active := False\<rparr>]\<rparr>) wrong_login
     = err 403 ''Account is suspended''
   \<and> err 403 ''Account is suspended'' \<noteq> err 401 ''Invalid email or password''"
  by (simp add: login_def single_def err_def fixture_defs)

section \<open>Approval of an application\<close>

text \<open>
  Claim C2. When the caller's \<open>admin_id\<close> resolves to an administrator and the
  \<open>application_id\<close> resolves to an application whose status is \<open>pending\<close>, the approval
  replies \<open>Approved\<close> and leaves a store in which every user row of the applicant has the
  role \<open>politician\<close>, exactly one profile row has the applicant's \<open>user_id\<close>, that row is
  verified and carries the application's name, seat, county, constituency and party and
  its motivation as bio, and the application has status \<open>approved\<close>. The profiles are
  keyed by \<open>user_id\<close>.
\<close>

theorem approve_pending_postconditions:
  assumes admin: "requireAdmin d (b ''admin_id'')"
    and found: "single (filter (\<lambda>a. a_id a = js_string (b ''application_id''))
                  (politician_applications d)) = Some app"
    and pending: "a_status app = ''pending''"
    and key: "distinct (map p_user_id (politician_profiles d))"
  shows "\<exists>d' p. approve_politician d b = (msg ''Approved'', d')
     \<and> filter (\<lambda>u. u_id u = a_user_id app) (users d')
         = map (\<lambda>u. u\<lparr>u_role := ''politician''\<rparr>)
             (filter (\<lambda>u. u_id u = a_user_id app) (users d))
     \<and> filter (\<lambda>p. p_user_id p = a_user_id app) (politician_profiles d') = [p]
     \<and> p_is_verified p \<and> p_full_name p = a_full_name app \<and> p_seat p = a_seat app
     \<and> p_county p = a_county app \<and> p_constituency p = a_constituency app
     \<and> p_party p = a_party app \<and> p_bio p = a_motivation app
     \<and> single (filter (\<lambda>a. a_id a = js_string (b ''application_id''))
          (politician_applications d')) = Some (app\<lparr>a_status := ''approved''\<rparr>)"
proof -
  let ?aid = "js_string (b ''application_id'')"
  from found have rows: "filter (\<lambda>a. a_id a = ?aid) (politician_applications d) = [app]"
    by (simp add: single_Some_iff)
  have u: "filter (\<lambda>u. u_id u = a_user_id app)
             (update_where (\<lambda>u. u_id u = a_user_id app) (\<lambda>u. u\<lparr>u_role := ''politician''\<rparr>)
               (users d))
           = map (\<lambda>u. u\<lparr>u_role := ''politician''\<rparr>)
               (filter (\<lambda>u. u_id u = a_user_id app) (users d))"
    by (rule filter_update_where) simp
  have p: "filter (\<lambda>p. p_user_id p = a_user_id app)
             (upsert_profile (profile_of app) (politician_profiles d)) = [profile_of app]"
    using upsert_profile_one_row [OF key, of "profile_of app"] by (simp add: profile_of_def)
  have a: "filter (\<lambda>a. a_id a = ?aid)
             (update_where (\<lambda>a. a_id a = ?aid) (\<lambda>a. a\<lparr>a_status := ''approved''\<rparr>)
               (politician_applications d))
           = [app\<lparr>a_status := ''approved''\<rparr>]"
    using filter_update_where [of "\<lambda>a. a_id a = ?aid" "\<lambda>a. a\<lparr>a_status := ''approved''\<rparr>"
        "politician_applications d"] rows by simp
  have run: "approve_politician d b =
      (msg ''Approved'',
       d\<lparr>users := update_where (\<lambda>u. u_id u = a_user_id app)
              (\<lambda>u. u\<lparr>u_role := ''politician''\<rparr>) (users d),
         politician_profiles := upsert_profile (profile_of app) (politician_profiles d),
         politician_applications := update_where (\<lambda>a. a_id a = ?aid)
              (\<lambda>a. a\<lparr>a_status := ''approved''\<rparr>) (politician_applications d)\<rparr>)"
    using admin found pending by (simp add: approve_politician_def)
  show ?thesis
    unfolding run using u p a
    by (simp add: single_Some_iff profile_of_def)
qed

text \<open>
  The theorem on the example store: the administrator approves application 7 of
  \<open>alice\<close>.
\<close>

theorem approve_pending_postconditions_witness:
  "requireAdmin db_pending (admin_on_7 ''admin_id'')
   \<and> single (filter (\<lambda>a. a_id a = js_string (admin_on_7 ''application_id''))
        (politician_applications db_pending)) = Some candidacy
   \<and> a_status candidacy = ''pending''
   \<and> distinct (map p_user_id (politician_profiles db_pending))
   \<and> (\<exists>d'. approve_politician db_pending admin_on_7 = (msg ''Approved'', d')
        \<and> map u_role (users d') = [''admin'', ''politician'']
        \<and> politician_profiles d' = [profile_of candidacy]
        \<and> map a_status (politician_applications d') = [''approved''])"
proof -
  have 1: "requireAdmin db_pending (admin_on_7 ''admin_id'')"
    by (simp add: requireAdmin_def single_def fixture_defs)
  have 2: "single (filter (\<lambda>a. a_id a = js_string (admin_on_7 ''application_id''))
        (politician_applications db_pending)) = Some candidacy"
    by (simp add: single_def fixture_defs digits_7_8)
  have 3: "a_status candidacy = ''pending''" by (simp add: candidacy_def)
  have 4: "distinct (map p_user_id (politician_profiles db_pending))"
    by (simp add: fixture_defs)
  from approve_pending_postconditions [OF 1 2 3 4]
  obtain d' where run: "approve_politician db_pending admin_on_7 = (msg ''Approved'', d')"
    by blast
  have "approve_politician db_pending admin_on_7 = (msg ''Approved'',
     db_pending\<lparr>users := [root_admin, alice\<lparr>u_role := ''politician''\<rparr>],
        politician_profiles := [profile_of candidacy],
        politician_applications := [candidacy\<lparr>a_status := ''approved''\<rparr>]\<rparr>)"
    by (simp add: approve_politician_def requireAdmin_def single_def digits_7_8
        update_where_def upsert_profile_def fixture_defs)
  with 1 2 3 4 run show ?thesis by (simp add: fixture_defs)
qed

text \<open>
  The first version of the approval handler refuses what is not a pending application:
  when the \<open>application_id\<close> resolves to no application, or to one whose status is not
  \<open>pending\<close>, it replies with an error (403 for a caller who is not an administrator, 400
  otherwise) and the store is left as it was.
\<close>

lemma approve_invalid_no_writes:
  assumes "single (filter (\<lambda>a. a_id a = js_string (b ''application_id''))
                  (politician_applications d)) = None
           \<or> (\<exists>app. single (filter (\<lambda>a. a_id a = js_string (b ''application_id''))
                  (politician_applications d)) = Some app \<and> a_status app \<noteq> ''pending'')"
  shows "approve_politician d b = (err 403 ''Admin only'', d)
         \<or> approve_politician d b = (err 400 ''Invalid application'', d)"
  using assms by (auto simp: approve_politician_def Let_def)

text \<open>The same on the example store, for an application id that does not exist.\<close>

lemma approve_invalid_no_writes_example:
  "single (filter (\<lambda>a. a_id a = js_string (admin_on_8 ''application_id''))
      (politician_applications db_pending)) = None
   \<and> approve_politician db_pending admin_on_8 = (err 400 ''Invalid application'', db_pending)"
proof -
  have 1: "single (filter (\<lambda>a. a_id a = js_string (admin_on_8 ''application_id''))
      (politician_applications db_pending)) = None"
    by (simp add: single_def fixture_defs digits_7_8)
  have 2: "requireAdmin db_pending (admin_on_8 ''admin_id'')"
    by (simp add: requireAdmin_def single_def fixture_defs)
  have "approve_politician db_pending admin_on_8 \<noteq> (err 403 ''Admin only'', db_pending)"
    using 1 2 by (simp add: approve_politician_def err_def)
  with approve_invalid_no_writes [of admin_on_8 db_pending] 1 show ?thesis by blast
qed

text \<open>
  The second version of the approval handler refuses an application id that resolves to
  nothing, and writes nothing then.
\<close>

lemma approve_v2_not_found:
  assumes "single (filter (\<lambda>a. a_id a = js_string (b ''application_id''))
             (politician_applications d)) = None"
  shows "approve_politician_v2 d b = (err 400 ''Application ID required'', d)
       \<or> approve_politician_v2 d b = (err 404 ''Application not found'', d)"
  using assms by (simp add: approve_politician_v2_def Let_def)

text \<open>
  Claim C3 asks that an approval of an application that is not pending returns an error
  and writes nothing. The second version of the approval handler tests only that the
  application was found: for any caller and whatever the status of the application, it
  replies with success, sets the applicant's role, inserts one more profile row and sets
  the status to \<open>approved\<close>.
\<close>

theorem approve_v2_ignores_status:
  assumes "truthy (b ''application_id'')"
    and "single (filter (\<lambda>a. a_id a = js_string (b ''application_id''))
           (politician_applications d)) = Some app"
  shows "approve_politician_v2 d b =
      (msg ''Politician approved successfully'',
       d\<lparr>users := update_where (\<lambda>u. u_id u = a_user_id app)
              (\<lambda>u. u\<lparr>u_role := ''politician''\<rparr>) (users d),
         politician_profiles := politician_profiles d @ [profile_of app],
         politician_applications :=
            update_where (\<lambda>a. a_id a = js_string (b ''application_id''))
              (\<lambda>a. a\<lparr>a_status := ''approved''\<rparr>) (politician_applications d)\<rparr>)"
  using assms by (simp add: approve_politician_v2_def)

text \<open>
  The failing input: application 7 is approved already and is approved again. The
  handler replies with success and the applicant has a second profile row.
\<close>

theorem approve_v2_ignores_status_witness:
  "truthy (admin_on_7 ''application_id'')
   \<and> single (filter (\<lambda>a. a_id a = js_string (admin_on_7 ''application_id''))
        (politician_applications db_approved)) = Some (candidacy\<lparr>a_status := ''approved''\<rparr>)
   \<and> a_status (candidacy\<lparr>a_status := ''approved''\<rparr>) \<noteq> ''pending''
   \<and> approve_politician_v2 db_approved admin_on_7
       = (msg ''Politician approved successfully'',
          db_approved\<lparr>politician_profiles := [profile_of candidacy, profile_of candidacy]\<rparr>)
   \<and> db_approved\<lparr>politician_profiles := [profile_of candidacy, profile_of candidacy]\<rparr>
       \<noteq> db_approved"
proof -
  have 1: "truthy (admin_on_7 ''application_id'')" by (simp add: fixture_defs)
  have 2: "single (filter (\<lambda>a. a_id a = js_string (admin_on_7 ''application_id''))
        (politician_applications db_approved)) = Some (candidacy\<lparr>a_status := ''approved''\<rparr>)"
    by (simp add: single_def fixture_defs digits_7_8)
  have 3: "approve_politician_v2 db_approved admin_on_7
       = (msg ''Politician approved successfully'',
          db_approved\<lparr>politician_profiles := [profile_of candidacy, profile_of candidacy]\<rparr>)"
    using approve_v2_ignores_status [of admin_on_7 db_approved
        "candidacy\<lparr>a_status := ''approved''\<rparr>", OF 1 2]
    by (simp add: update_where_def profile_of_def digits_7_8 fixture_defs)
  have 4: "db_approved\<lparr>politician_profiles := [profile_of candidacy, profile_of candidacy]\<rparr>
       \<noteq> db_approved"
    by (simp add: fixture_defs)
  from 1 2 3 4 show ?thesis by (simp add: fixture_defs)
qed

section \<open>Rejection of an application\<close>

text \<open>
  Claim C4 asks that an approved or rejected application never changes its status. The
  rejection handler does not read the application: for a caller who is an administrator
  it sets the status to \<open>rejected\<close> whatever the status was, so an approved application
  becomes rejected. The approval handler, next to it, does test for \<open>pending\<close>.
\<close>

theorem reject_overwrites_status:
  assumes "requireAdmin d (b ''admin_id'')"
    and "single (filter (\<lambda>a. a_id a = js_string (b ''application_id''))
           (politician_applications d)) = Some app"
  shows "\<exists>d'. reject_politician d b = (msg ''Rejected'', d')
     \<and> single (filter (\<lambda>a. a_id a = js_string (b ''application_id''))
          (politician_applications d')) = Some (app\<lparr>a_status := ''rejected''\<rparr>)"
proof -
  let ?aid = "js_string (b ''application_id'')"
  from assms(2) have "filter (\<lambda>a. a_id a = ?aid) (politician_applications d) = [app]"
    by (simp add: single_Some_iff)
  with filter_update_where [of "\<lambda>a. a_id a = ?aid" "\<lambda>a. a\<lparr>a_status := ''rejected''\<rparr>"
      "politician_applications d"]
  have "filter (\<lambda>a. a_id a = ?aid)
          (update_where (\<lambda>a. a_id a = ?aid) (\<lambda>a. a\<lparr>a_status := ''rejected''\<rparr>)
            (politician_applications d)) = [app\<lparr>a_status := ''rejected''\<rparr>]"
    by simp
  with assms(1) show ?thesis
    by (simp add: reject_politician_def single_Some_iff)
qed

text \<open>
  The failing input: the administrator rejects application 7 after it was approved, and
  its status goes from \<open>approved\<close> to \<open>rejected\<close>.
\<close>

theorem reject_overwrites_status_witness:
  "requireAdmin db_approved (admin_on_7 ''admin_id'')
   \<and> single (filter (\<lambda>a. a_id a = js_string (admin_on_7 ''application_id''))
        (politician_applications db_approved)) = Some (candidacy\<lparr>a_status := ''approved''\<rparr>)
   \<and> map a_status (politician_applications db_approved) = [''approved'']
   \<and> fst (reject_politician db_approved admin_on_7) = msg ''Rejected''
   \<and> map a_status (politician_applications (snd (reject_politician db_approved admin_on_7)))
      = [''rejected'']"
proof -
  have 1: "requireAdmin db_approved (admin_on_7 ''admin_id'')"
    by (simp add: requireAdmin_def single_def fixture_defs)
  have 2: "single (filter (\<lambda>a. a_id a = js_string (admin_on_7 ''application_id''))
        (politician_applications db_approved)) = Some (candidacy\<lparr>a_status := ''approved''\<rparr>)"
    by (simp add: single_def fixture_defs digits_7_8)
  from reject_overwrites_status [OF 1 2]
  obtain d' where "reject_politician db_approved admin_on_7 = (msg ''Rejected'', d')"
    by blast
  moreover have "map a_status (politician_applications
      (snd (reject_politician db_approved admin_on_7))) = [''rejected'']"
    using 1 by (simp add: reject_politician_def update_where_def fixture_defs digits_7_8)
  ultimately show ?thesis using 1 2 by (simp add: fixture_defs)
qed

text \<open>The second version of the rejection handler does the same for any caller.\<close>

lemma reject_v2_overwrites_status:
  assumes "single (filter (\<lambda>a. a_id a = js_string (b ''application_id''))
           (politician_applications d)) = Some app"
  shows "\<exists>d'. reject_politician_v2 d b = (msg ''Application rejected'', d')
     \<and> single (filter (\<lambda>a. a_id a = js_string (b ''application_id''))
          (politician_applications d')) = Some (app\<lparr>a_status := ''rejected''\<rparr>)"
proof -
  let ?aid = "js_string (b ''application_id'')"
  from assms have "filter (\<lambda>a. a_id a = ?aid) (politician_applications d) = [app]"
    by (simp add: single_Some_iff)
  with filter_update_where [of "\<lambda>a. a_id a = ?aid" "\<lambda>a. a\<lparr>a_status := ''rejected''\<rparr>"
      "politician_applications d"]
  show ?thesis by (simp add: reject_politician_v2_def single_Some_iff)
qed

section \<open>Single use of a verification code\<close>

text \<open>
  Claim C5 asks that a successful verify-email clears the stored code and its stored
  expiry. The handler reads the expiry from \<open>verify_code_expires\<close> and writes null to
  \<open>verification_code_expires\<close>: after every successful call the stored expiry of every
  user is what it was, and when the table has no column of the written name nothing is
  written at all.
\<close>

theorem verify_email_leaves_expiry:
  assumes "single (filter (\<lambda>u. u_email u = js_string (b ''email'')) (users d)) = Some user"
    and "strict_eq (u_verify_code user) (b ''code'')"
    and "now \<le> date_of (u_verify_code_expires user)"
  shows "fst (verify_email has_column now d b) = success
     \<and> map u_verify_code_expires (users (snd (verify_email has_column now d b)))
         = map u_verify_code_expires (users d)
     \<and> snd (verify_email False now d b) = d"
  using assms by (simp add: verify_email_def update_where_def)

text \<open>
  The failing input: \<open>bob\<close> verifies with the right code in time. With the column
  present his code is cleared and his expiry stays; with the column absent his row stays
  as it was, code included, and the same code is accepted a second time.
\<close>

theorem verify_email_leaves_expiry_witness:
  "single (filter (\<lambda>u. u_email u = js_string (verify_bob ''email''))
      (users (empty_db\<lparr>users := [bob]\<rparr>))) = Some bob
   \<and> strict_eq (u_verify_code bob) (verify_bob ''code'')
   \<and> (1000 :: int) \<le> date_of (u_verify_code_expires bob)
   \<and> verify_email True 1000 (empty_db\<lparr>users := [bob]\<rparr>) verify_bob
       = (success, empty_db\<lparr>users := [bob\<lparr>u_email_verified := True, u_verify_code := None\<rparr>]\<rparr>)
   \<and> u_verify_code_expires (bob\<lparr>u_email_verified := True, u_verify_code := None\<rparr>)
       = Some 900000
   \<and> verify_email False 1000 (empty_db\<lparr>users := [bob]\<rparr>) verify_bob
       = (success, empty_db\<lparr>users := [bob]\<rparr>)
   \<and> verify_email False 2000 (snd (verify_email False 1000 (empty_db\<lparr>users := [bob]\<rparr>)
         verify_bob)) verify_bob
       = (success, empty_db\<lparr>users := [bob]\<rparr>)"
  using verify_email_leaves_expiry [of verify_bob "empty_db\<lparr>users := [bob]\<rparr>" bob 1000 True]
  by (simp add: verify_email_def single_def update_where_def fixture_defs)

text \<open>
  The reset code, in contrast, is used once: a successful reset stores the new hash and
  clears the code and its expiry under the names they are read by, and the same request
  sent again at any later time is refused.
\<close>

lemma reset_password_single_use:
  assumes "single (filter (\<lambda>u. u_email u = js_string (b ''email'')) (users d)) = Some user"
    and "strict_eq (u_reset_code user) (b ''code'')"
    and "now \<le> date_of (u_reset_code_expires user)"
    and "b ''password'' = Str pw" and "0 < later"
  shows "\<exists>d'. reset_password hash now d b = (success, d')
     \<and> single (filter (\<lambda>u. u_email u = js_string (b ''email'')) (users d'))
         = Some (user\<lparr>u_password_hash := hash pw, u_reset_code := None,
                      u_reset_code_expires := None\<rparr>)
     \<and> reset_password hash later d' b
         = (Reply 200 [(''error'', Str ''Invalid or expired code'')], d')"
proof -
  let ?p = "\<lambda>u. u_email u = js_string (b ''email'')"
  let ?f = "\<lambda>u. u\<lparr>u_password_hash := hash pw, u_reset_code := None,
                      u_reset_code_expires := None\<rparr>"
  let ?d' = "d\<lparr>users := update_where ?p ?f (users d)\<rparr>"
  from assms(1) have rows: "filter ?p (users d) = [user]" by (simp add: single_Some_iff)
  have run: "reset_password hash now d b = (success, ?d')"
    using assms(1-4) by (simp add: reset_password_def)
  have "filter ?p (update_where ?p ?f (users d)) = map ?f (filter ?p (users d))"
    by (rule filter_update_where) simp
  with rows have after: "single (filter ?p (users ?d')) = Some (?f user)"
    by (simp add: single_Some_iff)
  have "\<not> strict_eq None (b ''code'') \<or> later > date_of None"
    using assms(5) by simp
  with after have "reset_password hash later ?d' b
      = (Reply 200 [(''error'', Str ''Invalid or expired code'')], ?d')"
    by (simp add: reset_password_def)
  with run after show ?thesis by blast
qed

section \<open>At most one application per user\<close>

text \<open>
  Claim C6. In a store where no two applications have the same \<open>user_id\<close>, a request
  with the required fields from a user who already has an application, whatever its
  status, is answered with 400 \<open>You have already submitted an application\<close> and the store
  is left as it was; and after any request at all, still no two applications have the
  same \<open>user_id\<close>.
\<close>

theorem apply_twice_rejected:
  assumes inv: "distinct (map a_user_id (politician_applications d))"
    and existing: "existing \<in> set (politician_applications d)"
      "a_user_id existing = js_string (b ''user_id'')"
    and fields: "truthy (b ''user_id'')" "truthy (b ''full_name'')" "truthy (b ''seat'')"
      "truthy (b ''motivation'')" "truthy (b ''fee'')"
      "b ''seat'' = Str ''President'' \<or> truthy (b ''county'')"
  shows "apply_politician new_id refusal d b
           = (err 400 ''You have already submitted an application'', d)
       \<and> distinct (map a_user_id
           (politician_applications (snd (apply_politician new_id' refusal' d b'))))"
proof
  from distinct_key_single [OF inv existing(1)] existing(2)
  have "single (filter (\<lambda>a. a_user_id a = js_string (b ''user_id''))
          (politician_applications d)) = Some existing"
    by simp
  with fields show "apply_politician new_id refusal d b
      = (err 400 ''You have already submitted an application'', d)"
    by (auto simp: apply_politician_def)
next
  show "distinct (map a_user_id
           (politician_applications (snd (apply_politician new_id' refusal' d b'))))"
    using inv distinct_key_single_None [OF inv, of "js_string (b' ''user_id'')"]
    by (auto simp: apply_politician_def Let_def split: option.splits)
qed

text \<open>
  The theorem on the store after the approval: \<open>alice\<close>, whose application is approved,
  applies again, this time for President.
\<close>

theorem apply_twice_rejected_witness:
  "distinct (map a_user_id (politician_applications db_approved))
   \<and> candidacy\<lparr>a_status := ''approved''\<rparr> \<in> set (politician_applications db_approved)
   \<and> a_user_id (candidacy\<lparr>a_status := ''approved''\<rparr>) = js_string (apply_again ''user_id'')
   \<and> truthy (apply_again ''user_id'') \<and> truthy (apply_again ''full_name'')
   \<and> truthy (apply_again ''seat'') \<and> truthy (apply_again ''motivation'')
   \<and> truthy (apply_again ''fee'') \<and> apply_again ''seat'' = Str ''President''
   \<and> apply_politician ''8'' None db_approved apply_again
       = (err 400 ''You have already submitted an application'', db_approved)"
proof -
  have 1: "distinct (map a_user_id (politician_applications db_approved))"
    by (simp add: fixture_defs)
  have 2: "candidacy\<lparr>a_status := ''approved''\<rparr> \<in> set (politician_applications db_approved)"
    by (simp add: fixture_defs)
  have 3: "a_user_id (candidacy\<lparr>a_status := ''approved''\<rparr>) = js_string (apply_again ''user_id'')"
    by (simp add: fixture_defs)
  have 4: "truthy (apply_again ''user_id'')" "truthy (apply_again ''full_name'')"
    "truthy (apply_again ''seat'')" "truthy (apply_again ''motivation'')"
    "truthy (apply_again ''fee'')" "apply_again ''seat'' = Str ''President''"
    by (simp_all add: fixture_defs)
  from 4(6) have 5: "apply_again ''seat'' = Str ''President'' \<or> truthy (apply_again ''county'')"
    by simp
  from apply_twice_rejected [OF 1 2 3 4(1-5) 5, of "''8''" None "''8''" None apply_again]
  show ?thesis using 1 2 3 4 by simp
qed

text \<open>The second version of the application handler, where the county is always required.\<close>

lemma apply_v2_twice_rejected:
  assumes inv: "distinct (map a_user_id (politician_applications d))"
    and existing: "existing \<in> set (politician_applications d)"
      "a_user_id existing = js_string (b ''user_id'')"
    and fields: "truthy (b ''user_id'')" "truthy (b ''full_name'')" "truthy (b ''seat'')"
      "truthy (b ''county'')" "truthy (b ''motivation'')" "truthy (b ''fee'')"
  shows "apply_politician_v2 new_id refusal d b
           = (err 400 ''You have already submitted an application'', d)
       \<and> distinct (map a_user_id
           (politician_applications (snd (apply_politician_v2 new_id' refusal' d b'))))"
proof
  from distinct_key_single [OF inv existing(1)] existing(2)
  have "single (filter (\<lambda>a. a_user_id a = js_string (b ''user_id''))
          (politician_applications d)) = Some existing"
    by simp
  with fields show "apply_politician_v2 new_id refusal d b
      = (err 400 ''You have already submitted an application'', d)"
    by (auto simp: apply_politician_v2_def)
next
  show "distinct (map a_user_id
           (politician_applications (snd (apply_politician_v2 new_id' refusal' d b'))))"
    using inv distinct_key_single_None [OF inv, of "js_string (b' ''user_id'')"]
    by (auto simp: apply_politician_v2_def Let_def split: option.splits)
qed

section \<open>Reposting a ground update\<close>

text \<open>
  Claim C7. When the \<open>ground_id\<close> resolves to the row \<open>X\<close> and the store accepts the
  insert under a key of its own, the repost replies \<open>Reposted\<close> and adds one row whose
  location, category and content are those of \<open>X\<close> and whose \<open>repost_of\<close> is the id of
  \<open>X\<close>; any later update of the row \<open>X\<close> leaves the added row in the table as it is.
\<close>

theorem repost_copies_source:
  assumes "truthy (b ''user_id'')" and "truthy (b ''ground_id'')"
    and "single (filter (\<lambda>g. g_id g = js_string (b ''ground_id'')) (ground_updates d)) = Some X"
    and "new_id \<noteq> g_id X"
  shows "\<exists>row. ground_repost new_id None d b
             = (msg ''Reposted'', d\<lparr>ground_updates := ground_updates d @ [row]\<rparr>)
     \<and> g_location row = g_location X \<and> g_category row = g_category X
     \<and> g_content row = g_content X \<and> g_repost_of row = Some (g_id X)
     \<and> row \<in> set (update_where (\<lambda>g. g_id g = g_id X) edit (ground_updates d @ [row]))"
proof -
  from single_filter_holds [OF assms(3)] have id: "g_id X = js_string (b ''ground_id'')"
    by simp
  let ?row = "\<lparr>g_id = new_id, g_user_id = js_string (b ''user_id''),
                g_location = g_location X, g_category = g_category X,
                g_content = g_content X, g_repost_of = Some (js_string (b ''ground_id''))\<rparr>"
  have "ground_repost new_id None d b
          = (msg ''Reposted'', d\<lparr>ground_updates := ground_updates d @ [?row]\<rparr>)"
    using assms(1-3) by (simp add: ground_repost_def)
  moreover have "?row \<in> set (update_where (\<lambda>g. g_id g = g_id X) edit
      (ground_updates d @ [?row]))"
    using assms(4) by (simp add: update_where_def)
  ultimately show ?thesis using id by (intro exI [of _ ?row]) simp
qed

text \<open>
  The theorem on a store with the one report \<open>g1\<close>: \<open>bob\<close> reposts it, and an edit of
  \<open>g1\<close> afterwards leaves the repost as it is.
\<close>

theorem repost_copies_source_witness:
  "truthy (repost_g1 ''user_id'') \<and> truthy (repost_g1 ''ground_id'')
   \<and> single (filter (\<lambda>g. g_id g = js_string (repost_g1 ''ground_id''))
        (ground_updates (empty_db\<lparr>ground_updates := [report]\<rparr>))) = Some report
   \<and> ''g2'' \<noteq> g_id report
   \<and> ground_repost ''g2'' None (empty_db\<lparr>ground_updates := [report]\<rparr>) repost_g1
       = (msg ''Reposted'',
          empty_db\<lparr>ground_updates := [report,
            \<lparr>g_id = ''g2'', g_user_id = ''u2'', g_location = Some ''Kisumu'',
             g_category = Some ''Roads'', g_content = Some ''Bridge reopened'',
             g_repost_of = Some ''g1''\<rparr>]\<rparr>)
   \<and> update_where (\<lambda>g. g_id g = g_id report) (\<lambda>g. g\<lparr>g_content := Some ''Bridge closed''\<rparr>)
        [report,
         \<lparr>g_id = ''g2'', g_user_id = ''u2'', g_location = Some ''Kisumu'',
          g_category = Some ''Roads'', g_content = Some ''Bridge reopened'',
          g_repost_of = Some ''g1''\<rparr>]
       = [report\<lparr>g_content := Some ''Bridge closed''\<rparr>,
         \<lparr>g_id = ''g2'', g_user_id = ''u2'', g_location = Some ''Kisumu'',
          g_category = Some ''Roads'', g_content = Some ''Bridge reopened'',
          g_repost_of = Some ''g1''\<rparr>]"
proof -
  have 1: "truthy (repost_g1 ''user_id'')" "truthy (repost_g1 ''ground_id'')"
    by (simp_all add: fixture_defs)
  have 2: "single (filter (\<lambda>g. g_id g = js_string (repost_g1 ''ground_id''))
        (ground_updates (empty_db\<lparr>ground_updates := [report]\<rparr>))) = Some report"
    by (simp add: single_def fixture_defs)
  have 3: "''g2'' \<noteq> g_id report" by (simp add: fixture_defs)
  from repost_copies_source [OF 1 2 3]
  obtain row where "ground_repost ''g2'' None (empty_db\<lparr>ground_updates := [report]\<rparr>) repost_g1
      = (msg ''Reposted'', (empty_db\<lparr>ground_updates := [report]\<rparr>)
            \<lparr>ground_updates := ground_updates (empty_db\<lparr>ground_updates := [report]\<rparr>) @ [row]\<rparr>)"
    by blast
  moreover have "ground_repost ''g2'' None (empty_db\<lparr>ground_updates := [report]\<rparr>) repost_g1
       = (msg ''Reposted'',
          empty_db\<lparr>ground_updates := [report,
            \<lparr>g_id = ''g2'', g_user_id = ''u2'', g_location = Some ''Kisumu'',
             g_category = Some ''Roads'', g_content = Some ''Bridge reopened'',
             g_repost_of = Some ''g1''\<rparr>]\<rparr>)"
    by (simp add: ground_repost_def single_def fixture_defs)
  ultimately show ?thesis using 1 2 3 by (simp add: update_where_def fixture_defs)
qed

text \<open>
  Claim C8 asks that a repost whose \<open>ground_id\<close> resolves to no row returns an error.
  The handler does not test the row it read: with the two fields present it throws while
  building the row to insert, outside any \<open>try\<close>, and sends no reply of its own. The
  store is left as it was.
\<close>

theorem repost_missing_source_throws:
  assumes "truthy (b ''user_id'')" and "truthy (b ''ground_id'')"
    and "single (filter (\<lambda>g. g_id g = js_string (b ''ground_id'')) (ground_updates d)) = None"
  shows "ground_repost new_id refusal d b
           = (Uncaught ''TypeError: Cannot read properties of null'', d)"
  using assms by (simp add: ground_repost_def)

text \<open>The failing input: a repost of \<open>g404\<close> in a store that only has \<open>g1\<close>.\<close>

theorem repost_missing_source_throws_witness:
  "truthy (repost_g404 ''user_id'') \<and> truthy (repost_g404 ''ground_id'')
   \<and> single (filter (\<lambda>g. g_id g = js_string (repost_g404 ''ground_id''))
        (ground_updates (empty_db\<lparr>ground_updates := [report]\<rparr>))) = None
   \<and> ground_repost ''g2'' None (empty_db\<lparr>ground_updates := [report]\<rparr>) repost_g404
       = (Uncaught ''TypeError: Cannot read properties of null'',
          empty_db\<lparr>ground_updates := [report]\<rparr>)"
  using repost_missing_source_throws [of repost_g404 "empty_db\<lparr>ground_updates := [report]\<rparr>"
      "''g2''" None]
  by (simp add: single_def fixture_defs)

section \<open>The target type of comments and ratings\<close>

text \<open>
  Claim C10. Whatever the request, \<open>POST /comment\<close> leaves the comments as they were or
  adds one row whose \<open>target_type\<close> is \<open>manifesto\<close>, and \<open>POST /rate\<close> leaves the ratings
  as they were or writes one row whose \<open>target_type\<close> is \<open>manifesto\<close> (added, or put in
  the place of the rows with its key); a \<open>target_type\<close> field in the request changes
  nothing.
\<close>

theorem annotations_target_manifesto:
  "(comments (snd (comment_post toLowerCase refusal d b)) = comments d
      \<or> (\<exists>row. comments (snd (comment_post toLowerCase refusal d b)) = comments d @ [row]
            \<and> c_target_type row = ''manifesto''))
   \<and> (ratings (snd (rate parse store_rating d b)) = ratings d
      \<or> (\<exists>row. r_target_type row = ''manifesto''
            \<and> (ratings (snd (rate parse store_rating d b)) = ratings d @ [row]
               \<or> ratings (snd (rate parse store_rating d b))
                  = update_where (same_key row) (\<lambda>r. row) (ratings d))))
   \<and> comment_post toLowerCase refusal d (b(''target_type'' := v))
        = comment_post toLowerCase refusal d b
   \<and> rate parse store_rating d (b(''target_type'' := v)) = rate parse store_rating d b"
proof (intro conjI)
  show "comments (snd (comment_post toLowerCase refusal d b)) = comments d
      \<or> (\<exists>row. comments (snd (comment_post toLowerCase refusal d b)) = comments d @ [row]
            \<and> c_target_type row = ''manifesto'')"
    by (simp add: comment_post_def Let_def split: jsval.splits option.splits)
  show "ratings (snd (rate parse store_rating d b)) = ratings d
      \<or> (\<exists>row. r_target_type row = ''manifesto''
            \<and> (ratings (snd (rate parse store_rating d b)) = ratings d @ [row]
               \<or> ratings (snd (rate parse store_rating d b))
                  = update_where (same_key row) (\<lambda>r. row) (ratings d)))"
    apply (simp add: rate_def Let_def upsert_rating_def split: sum.splits)
    by (metis rating.select_convs(2))
  show "comment_post toLowerCase refusal d (b(''target_type'' := v))
        = comment_post toLowerCase refusal d b"
    by (simp add: comment_post_def)
  show "rate parse store_rating d (b(''target_type'' := v)) = rate parse store_rating d b"
    by (simp add: rate_def)
qed

text \<open>
  The theorem on the example store: a comment and a rating by \<open>alice\<close> on \<open>m1\<close>, both
  sent with the target type \<open>politician\<close>.
\<close>

theorem annotations_target_manifesto_witness:
  "praise ''target_type'' = Str ''politician''
   \<and> comment_post ascii_lower None db_pending praise
       = (msg ''Comment posted successfully'',
          db_pending\<lparr>comments := [\<lparr>c_user_id = ''u1'', c_target_type = ''manifesto'',
             c_target_id = ''m1'', c_content = ''Good Plan''\<rparr>]\<rparr>)
   \<and> five_stars ''target_type'' = Str ''politician''
   \<and> rate (\<lambda>s. None) integer_column db_pending five_stars
       = (msg ''Rating saved'',
          db_pending\<lparr>ratings := [\<lparr>r_user_id = ''u1'', r_target_type = ''manifesto'',
             r_target_id = ''m1'', r_rating = 5\<rparr>]\<rparr>)"
proof -
  have c: "comment_post ascii_lower None db_pending praise
       = (msg ''Comment posted successfully'',
          db_pending\<lparr>comments := [\<lparr>c_user_id = ''u1'', c_target_type = ''manifesto'',
             c_target_id = ''m1'', c_content = ''Good Plan''\<rparr>]\<rparr>)"
    by (simp add: comment_post_def single_def bannedWords_def fixture_defs)
  have r: "rate (\<lambda>s. None) integer_column db_pending five_stars
       = (msg ''Rating saved'',
          db_pending\<lparr>ratings := [\<lparr>r_user_id = ''u1'', r_target_type = ''manifesto'',
             r_target_id = ''m1'', r_rating = 5\<rparr>]\<rparr>)"
    by (simp add: rate_def upsert_rating_def fixture_defs)
  from annotations_target_manifesto [of ascii_lower None db_pending praise "\<lambda>s. None"
      integer_column "Str ''politician''"]
    annotations_target_manifesto [of ascii_lower None db_pending five_stars "\<lambda>s. None"
      integer_column "Str ''politician''"] c r
  show ?thesis by (simp add: fixture_defs)
qed

text \<open>A numeric rating outside 1 to 5 is refused and nothing is written.\<close>

lemma rate_out_of_range:
  assumes "truthy (b ''user_id'')" and "truthy (b ''target_id'')"
    and "b ''rating'' = Num n" and "n < 1 \<or> 5 < n"
  shows "rate parse store_rating d b = (err 400 ''Missing fields'', d)
       \<or> rate parse store_rating d b = (err 400 ''Rating must be between 1 and 5'', d)"
  using assms by (auto simp: rate_def Let_def)

section \<open>The rating summary\<close>

subsection \<open>Rounding to a number of the language\<close>

lemma pow2_powi: "pow2 e = 2 powi e"
  by (simp add: pow2_def power_int_def power_one_over inverse_eq_divide)

lemma pow2_pos: "0 < pow2 e"
  by (simp add: pow2_powi)

lemma pow2_diff: "pow2 (a - b) = pow2 a / pow2 b"
  by (simp add: pow2_powi power_int_diff)

lemma pow2_nat: "pow2 (int n) = 2 ^ n"
  by (simp add: pow2_powi)

lemma pow2_less_iff: "pow2 a < pow2 b \<longleftrightarrow> a < b"
proof
  assume "pow2 a < pow2 b"
  show "a < b"
  proof (rule ccontr)
    assume "\<not> a < b"
    then have "b \<le> a" by simp
    then have "(2::rat) powi b \<le> 2 powi a" by (intro power_int_increasing) auto
    with \<open>pow2 a < pow2 b\<close> show False by (simp add: pow2_powi)
  qed
next
  assume "a < b"
  then show "pow2 a < pow2 b"
    by (simp add: pow2_powi power_int_strict_increasing)
qed

lemma binary_exponent_bounds:
  assumes "0 < q"
  shows "pow2 (binary_exponent q) \<le> q \<and> q < pow2 (binary_exponent q + 1)"
proof -
  obtain a b where ab: "quotient_of q = (a, b)" by (cases "quotient_of q")
  then have b: "0 < b" and q: "q = of_int a / of_int b"
    by (auto simp: quotient_of_denom_pos quotient_of_div)
  with assms have a: "0 < a" by (simp add: zero_less_divide_iff)
  define la lb where "la = bitlen a" and "lb = bitlen b"
  from bitlen_bounds [OF a] have a1: "2 ^ nat (la - 1) \<le> a" and a2: "a < 2 ^ nat la"
    by (simp_all add: la_def)
  from bitlen_bounds [OF b] have b1: "2 ^ nat (lb - 1) \<le> b" and b2: "b < 2 ^ nat lb"
    by (simp_all add: lb_def)
  have la: "1 \<le> la"
  proof -
    have "la \<noteq> 0" using a by (simp add: la_def bitlen_eq_zero_iff)
    moreover have "0 \<le> la" by (simp add: la_def bitlen_nonneg)
    ultimately show ?thesis by linarith
  qed
  have lb: "1 \<le> lb"
  proof -
    have "lb \<noteq> 0" using b by (simp add: lb_def bitlen_eq_zero_iff)
    moreover have "0 \<le> lb" by (simp add: lb_def bitlen_nonneg)
    ultimately show ?thesis by linarith
  qed
  have A1: "pow2 (la - 1) \<le> of_int a"
  proof -
    have "pow2 (la - 1) = 2 ^ nat (la - 1)" using la by (simp add: pow2_def)
    also have "\<dots> = of_int (2 ^ nat (la - 1))" by simp
    also have "\<dots> \<le> of_int a" using a1 by (simp only: of_int_le_iff)
    finally show ?thesis .
  qed
  have A2: "of_int a < pow2 la"
  proof -
    have "(of_int a :: rat) < of_int (2 ^ nat la)" using a2 by (simp only: of_int_less_iff)
    also have "\<dots> = pow2 la" using la by (simp add: pow2_def)
    finally show ?thesis .
  qed
  have B1: "pow2 (lb - 1) \<le> of_int b"
  proof -
    have "pow2 (lb - 1) = 2 ^ nat (lb - 1)" using lb by (simp add: pow2_def)
    also have "\<dots> = of_int (2 ^ nat (lb - 1))" by simp
    also have "\<dots> \<le> of_int b" using b1 by (simp only: of_int_le_iff)
    finally show ?thesis .
  qed
  have B2: "of_int b < pow2 lb"
  proof -
    have "(of_int b :: rat) < of_int (2 ^ nat lb)" using b2 by (simp only: of_int_less_iff)
    also have "\<dots> = pow2 lb" using lb by (simp add: pow2_def)
    finally show ?thesis .
  qed
  define d where "d = la - lb"
  have bq: "(0::rat) < of_int b" using b by simp
  have lo: "pow2 (d - 1) \<le> q"
  proof -
    have "pow2 (d - 1) = pow2 (la - 1) / pow2 lb"
      by (simp add: d_def pow2_diff [symmetric] algebra_simps)
    also have "\<dots> \<le> of_int a / pow2 lb"
      using A1 pow2_pos [of lb] by (simp add: divide_right_mono)
    also have "\<dots> \<le> of_int a / of_int b"
      using B2 bq a by (intro divide_left_mono) (auto simp: pow2_pos)
    finally show ?thesis by (simp add: q)
  qed
  have hi: "q < pow2 (d + 1)"
  proof -
    have "q = of_int a / of_int b" by (rule q)
    also have "\<dots> < pow2 la / of_int b"
      using A2 bq by (simp add: divide_strict_right_mono)
    also have "\<dots> \<le> pow2 la / pow2 (lb - 1)"
      using B1 pow2_pos [of "lb - 1"] pow2_pos [of la]
      by (intro divide_left_mono) (auto simp: bq)
    also have "\<dots> = pow2 (d + 1)"
      by (simp add: d_def pow2_diff [symmetric] algebra_simps)
    finally show ?thesis .
  qed
  have be: "binary_exponent q = (if pow2 d \<le> q then d else d - 1)"
    by (simp add: binary_exponent_def ab d_def la_def lb_def)
  show ?thesis
  proof (cases "pow2 d \<le> q")
    case True
    with be hi show ?thesis by simp
  next
    case False
    with be lo show ?thesis by simp
  qed
qed

lemma round_half_even_near: "\<bar>of_int (round_half_even q) - q\<bar> \<le> 1 / 2"
proof -
  have "of_int \<lfloor>q\<rfloor> \<le> q" "q < of_int \<lfloor>q\<rfloor> + 1" by linarith+
  then show ?thesis
    by (auto simp: round_half_even_def Let_def abs_le_iff)
qed

lemma round_half_even_int: "round_half_even (of_int k) = k"
  by (simp add: round_half_even_def)

lemma double_round_pos:
  assumes "0 < q"
  shows "double_round q
           = of_int (round_half_even (q / pow2 (binary_exponent q - 52)))
             * pow2 (binary_exponent q - 52)"
  using assms by (simp add: double_round_def Let_def)

lemma double_round_rel_err:
  assumes "0 < q"
  shows "\<bar>double_round q - q\<bar> \<le> q / 2 ^ 53"
proof -
  define s where "s = pow2 (binary_exponent q - 52)"
  define m where "m = round_half_even (q / s)"
  have s: "0 < s" by (simp add: s_def pow2_pos)
  have dr: "double_round q = of_int m * s"
    using assms by (simp add: double_round_pos m_def s_def)
  have "\<bar>of_int m - q / s\<bar> \<le> 1 / 2" unfolding m_def by (rule round_half_even_near)
  then have "\<bar>of_int m - q / s\<bar> * s \<le> 1 / 2 * s"
    using s by (intro mult_right_mono) auto
  moreover have "\<bar>of_int m - q / s\<bar> * s = \<bar>of_int m * s - q\<bar>"
  proof -
    have "\<bar>of_int m - q / s\<bar> * s = \<bar>(of_int m - q / s) * s\<bar>"
      using s by (simp add: abs_mult)
    also have "(of_int m - q / s) * s = of_int m * s - q"
      using s by (simp add: field_simps)
    finally show ?thesis .
  qed
  ultimately have e1: "\<bar>double_round q - q\<bar> \<le> s / 2" by (simp add: dr)
  have "s = pow2 (binary_exponent q) / 2 ^ 52"
    using pow2_diff [of "binary_exponent q" 52] pow2_nat [of 52] by (simp add: s_def)
  also have "\<dots> \<le> q / 2 ^ 52"
    using binary_exponent_bounds [OF assms] by (simp add: divide_right_mono)
  finally have "s / 2 \<le> q / 2 ^ 53" by simp
  with e1 show ?thesis by linarith
qed

lemma double_round_int:
  assumes "0 \<le> k" and "k < 2 ^ 53"
  shows "double_round (of_int k) = of_int k"
proof (cases "k = 0")
  case True
  then show ?thesis by (simp add: double_round_def)
next
  case False
  with assms have k: "0 < k" by simp
  then have q: "(0::rat) < of_int k" by simp
  define E where "E = binary_exponent (of_int k)"
  from binary_exponent_bounds [OF q] have "pow2 E \<le> of_int k" by (simp add: E_def)
  also have "(of_int k :: rat) < of_int (2 ^ 53)" using assms(2) by (simp only: of_int_less_iff)
  also have "(of_int (2 ^ 53) :: rat) = pow2 53" by (simp add: pow2_def)
  finally have "E < 53" by (simp add: pow2_less_iff)
  define j where "j = nat (52 - E)"
  from \<open>E < 53\<close> have j: "E - 52 = - int j" by (simp add: j_def)
  have "pow2 (- int j) = 1 / 2 ^ j"
    by (cases "j = 0") (simp_all add: pow2_def)
  then have div: "of_int k / pow2 (E - 52) = of_int (k * 2 ^ j)"
    by (simp add: j)
  have "double_round (of_int k) = of_int (round_half_even (of_int k / pow2 (E - 52))) * pow2 (E - 52)"
    using q by (simp add: double_round_pos E_def)
  also have "\<dots> = of_int (k * 2 ^ j) * pow2 (E - 52)"
    by (simp only: div round_half_even_int)
  also have "\<dots> = of_int k" using \<open>pow2 (- int j) = 1 / 2 ^ j\<close> by (simp add: j)
  finally show ?thesis .
qed

lemma double_round_nonneg:
  assumes "0 < q"
  shows "0 \<le> double_round q"
proof -
  define eps where "eps = q / 2 ^ 53"
  from double_round_rel_err [OF assms] have "\<bar>double_round q - q\<bar> \<le> eps"
    by (simp only: eps_def)
  moreover have "eps \<le> q" using assms by (simp add: eps_def field_simps)
  ultimately show ?thesis by linarith
qed

subsection \<open>The sum and the printed average\<close>

lemma total_exact:
  assumes "list_all (\<lambda>r. 0 \<le> r_rating r) data" and "0 \<le> acc"
    and "acc + sum_list (map r_rating data) < 2 ^ 53"
  shows "foldl (\<lambda>sum r. js_add sum (of_int (r_rating r))) (of_int acc) data
           = of_int (acc + sum_list (map r_rating data))"
  using assms
proof (induction data arbitrary: acc)
  case Nil
  then show ?case by simp
next
  case (Cons r data)
  from Cons.prems(1) have r: "0 \<le> r_rating r" and rest: "list_all (\<lambda>r. 0 \<le> r_rating r) data"
    by simp_all
  from rest have "0 \<le> sum_list (map r_rating data)"
    by (induction data) simp_all
  with Cons.prems r have "0 \<le> acc + r_rating r" "acc + r_rating r < 2 ^ 53"
    by simp_all
  then have "js_add (of_int acc) (of_int (r_rating r)) = of_int (acc + r_rating r)"
    using double_round_int [of "acc + r_rating r"] by (simp add: js_add_def)
  moreover have "foldl (\<lambda>sum r. js_add sum (of_int (r_rating r))) (of_int (acc + r_rating r)) data
      = of_int (acc + r_rating r + sum_list (map r_rating data))"
    using Cons.IH [OF rest \<open>0 \<le> acc + r_rating r\<close>] Cons.prems(3) by (simp add: add.assoc)
  ultimately show ?case by (simp add: add.assoc)
qed

lemma tenths_near:
  fixes a b :: int
  assumes a: "0 < a" and b: "0 < b" and small: "20 * a < 2 ^ 53"
  shows "\<bar>of_int (tenths (double_round (of_int a / of_int b))) / 10 - of_int a / of_int b\<bar>
           \<le> (1 / 20 :: rat)"
proof -
  define q :: rat where "q = of_int a / of_int b"
  define u :: rat where "u = 1 / of_int b"
  define x where "x = double_round q"
  define n where "n = tenths x"
  have u: "0 < u" using b by (simp add: u_def)
  have q: "0 < q" using a b by (simp add: q_def)
  have qu: "q = of_int a * u" by (simp add: q_def u_def)
  define eps where "eps = q / 2 ^ 53"
  from double_round_rel_err [OF q] have "\<bar>x - q\<bar> \<le> eps"
    by (simp only: eps_def x_def)
  then have err: "x - q \<le> eps" "q - x \<le> eps" by linarith+
  have "(of_int (20 * a) :: rat) < of_int (2 ^ 53)" using small by (simp only: of_int_less_iff)
  then have "of_int a * u * 20 < 2 ^ 53 * u" using u by simp
  then have tiny: "eps < u / 20" by (simp add: eps_def qu field_simps)
  have fl: "of_int n \<le> 10 * x + 1 / 2" "10 * x + 1 / 2 < of_int n + 1"
    unfolding n_def tenths_def by linarith+
  have gap: "u \<le> of_int k * u" if "0 < k" for k :: int
  proof -
    from that have "(1::rat) \<le> of_int k" by linarith
    with u show ?thesis by simp
  qed
  have int_mult: "of_int k * u = of_int (2 * m + c) - 20 * q"
    if "k = (2 * m + c) * b - 20 * a" for k m c :: int
  proof -
    have "(of_int k :: rat) = of_int (2 * m + c) * of_int b - 20 * of_int a"
      unfolding that by simp
    then have "of_int k * u = (of_int (2 * m + c) * of_int b - 20 * of_int a) * u"
      by simp
    also have "\<dots> = of_int (2 * m + c) * (of_int b * u) - 20 * (of_int a * u)"
      by (simp add: algebra_simps)
    also have "of_int b * u = 1" using b by (simp add: u_def)
    finally show ?thesis by (simp add: qu)
  qed
  have upper: "of_int n / 10 - q \<le> 1 / 20"
  proof (rule ccontr)
    assume "\<not> of_int n / 10 - q \<le> 1 / 20"
    then have 1: "0 < of_int (2 * n - 1) - 20 * q" by simp
    define k where "k = (2 * n + (- 1)) * b - 20 * a"
    have ku: "of_int k * u = of_int (2 * n + (- 1)) - 20 * q" by (rule int_mult) (simp add: k_def)
    with 1 have "0 < of_int k * u" by simp
    with u have "0 < k" by (simp add: zero_less_mult_iff)
    from gap [OF this] ku have "u \<le> of_int (2 * n - 1) - 20 * q" by simp
    with fl(1) have "u / 20 \<le> x - q" by simp
    with err(1) tiny show False by linarith
  qed
  have lower: "q - of_int n / 10 \<le> 1 / 20"
  proof (rule ccontr)
    assume "\<not> q - of_int n / 10 \<le> 1 / 20"
    then have 1: "of_int (2 * n + 1) - 20 * q < 0" by simp
    define k where "k = 20 * a - (2 * n + 1) * b"
    have "- k = (2 * n + 1) * b - 20 * a" by (simp add: k_def)
    from int_mult [OF this] have ku: "of_int k * u = 20 * q - of_int (2 * n + 1)" by simp
    with 1 have "0 < of_int k * u" by simp
    with u have "0 < k" by (simp add: zero_less_mult_iff)
    from gap [OF this] ku have "u \<le> 20 * q - of_int (2 * n + 1)" by simp
    with fl(2) have "u / 20 < q - x" by simp
    with err(2) tiny show False by linarith
  qed
  from upper lower have "\<bar>of_int n / 10 - q\<bar> \<le> 1 / 20" by linarith
  then show ?thesis by (simp only: n_def x_def q_def)
qed

lemma tenths_0: "tenths 0 = 0"
  by (simp add: tenths_def floor_eq_iff)

text \<open>
  The tenth printed is the nearest one to the number of the language that the division
  gave, not to the exact mean: an exact mean halfway between two tenths goes up or down
  with the binary rounding of the quotient.
\<close>

lemma average_halfway:
  "toFixed1 (js_div 5 4) = ''1.3'' \<and> toFixed1 (js_div 29 20) = ''1.4''"
  by code_simp

text \<open>
  Claim C9, as the code has it. Let \<open>rows\<close> be the rating rows of the table whose target
  type is \<open>manifesto\<close> and whose target id is the one asked for, holding non-negative
  integers with a sum below \<open>2^53 / 20\<close>. With no such row the summary is the successful
  reply \<open>average = 0, count = 0\<close>. Otherwise \<open>count\<close> is the number of these rows and
  \<open>average\<close> is the decimal \<open>n / 10\<close> printed with one digit after the point, where \<open>n\<close>
  is the exact mean of these rows rounded to tenths, halves up, except that for a mean
  lying exactly halfway between two tenths \<open>n\<close> may also be the tenth below.
\<close>

theorem ratings_summary_mean:
  assumes rows: "rows = filter (\<lambda>r. r_target_type r = ''manifesto'' \<and> r_target_id r = t)
                          (ratings d)"
    and nonneg: "list_all (\<lambda>r. 0 \<le> r_rating r) rows"
    and small: "20 * sum_list (map r_rating rows) < 2 ^ 53"
    and mean: "mean = of_int (sum_list (map r_rating rows)) / of_nat (length rows)"
  shows "if rows = []
         then ratings_summary None d t = Reply 200 [(''average'', Num 0), (''count'', Num 0)]
         else \<exists>n::nat. ratings_summary None d t
                = Reply 200 [(''average'', Str (digits (n div 10) @ ''.'' @ digits (n mod 10))),
                             (''count'', Num (int (length rows)))]
              \<and> (int n = tenths mean
                  \<or> of_int (tenths mean) = 10 * mean + 1 / 2 \<and> int n = tenths mean - 1)"
proof (cases "rows = []")
  case True
  then show ?thesis by (simp add: ratings_summary_def rows [symmetric])
next
  case False
  define S where "S = sum_list (map r_rating rows)"
  define len where "len = int (length rows)"
  define x where "x = double_round (of_int S / of_int len)"
  have len: "0 < len" using False by (simp add: len_def)
  have S0: "0 \<le> S" using nonneg unfolding S_def
    by (induction rows) simp_all
  have "S < 2 ^ 53" using small S0 by (simp add: S_def)
  with total_exact [of rows 0] nonneg S0
  have total: "foldl (\<lambda>sum r. js_add sum (of_int (r_rating r))) 0 rows = of_int S"
    by (simp add: S_def)
  have run: "ratings_summary None d t
      = Reply 200 [(''average'', Str (toFixed1 x)), (''count'', Num (int (length rows)))]"
    using False total
    by (simp add: ratings_summary_def rows [symmetric] js_div_def x_def len_def Let_def)
  have x0: "0 \<le> x"
  proof (cases "S = 0")
    case True
    then show ?thesis by (simp add: x_def double_round_def)
  next
    case False
    with S0 len have "(0::rat) < of_int S / of_int len" by simp
    then show ?thesis unfolding x_def by (rule double_round_nonneg)
  qed
  have near: "\<bar>of_int (tenths x) / 10 - of_int S / of_int len\<bar> \<le> (1 / 20 :: rat)"
  proof (cases "S = 0")
    case True
    then show ?thesis by (simp add: x_def double_round_def tenths_0)
  next
    case False
    with S0 have "0 < S" by simp
    moreover have "20 * S < 2 ^ 53" using small by (simp add: S_def)
    ultimately show ?thesis unfolding x_def using len by (intro tenths_near)
  qed
  from x0 have t0: "0 \<le> tenths x" by (simp add: tenths_def)
  define n where "n = nat (tenths x)"
  have n: "int n = tenths x" using t0 by (simp add: n_def)
  have fixed: "toFixed1 x = digits (n div 10) @ ''.'' @ digits (n mod 10)"
    using x0 by (simp add: toFixed1_def n_def Let_def)
  have m: "mean = of_int S / of_int len" by (simp add: mean S_def len_def)
  define h where "h = tenths mean"
  have fl: "of_int h \<le> 10 * mean + 1 / 2" "10 * mean + 1 / 2 < of_int h + 1"
    unfolding h_def tenths_def by linarith+
  from near have lo: "of_int (tenths x) \<le> 10 * mean + 1 / 2"
    and hi: "10 * mean - 1 / 2 \<le> of_int (tenths x)"
    unfolding m by linarith+
  from lo have "tenths x \<le> h" unfolding h_def tenths_def by (simp add: le_floor_iff)
  moreover from hi fl(1) have "(of_int h :: rat) - 1 \<le> of_int (tenths x)" by linarith
  then have "(of_int (h - 1) :: rat) \<le> of_int (tenths x)" by simp
  then have "h - 1 \<le> tenths x" by (simp only: of_int_le_iff)
  ultimately have cases: "tenths x = h \<or> tenths x = h - 1" by linarith
  have "int n = h \<or> of_int h = 10 * mean + 1 / 2 \<and> int n = h - 1"
  proof (cases "tenths x = h")
    case True
    with n show ?thesis by simp
  next
    case False
    with cases have eq: "tenths x = h - 1" by simp
    with hi have "10 * mean - 1 / 2 \<le> of_int h - 1" by simp
    with fl(1) have "of_int h = 10 * mean + 1 / 2" by linarith
    with eq n show ?thesis by simp
  qed
  with run fixed False show ?thesis
    unfolding h_def by auto
qed

text \<open>
  The theorem on a store with the ratings 4, 5 and 5 for \<open>m1\<close> and one rating for another
  target: the mean 14/3 is printed as 4.7, and the count is 3.
\<close>

theorem ratings_summary_mean_witness:
  "[\<lparr>r_user_id = ''u1'', r_target_type = ''manifesto'', r_target_id = ''m1'', r_rating = 4\<rparr>,
    \<lparr>r_user_id = ''u2'', r_target_type = ''manifesto'', r_target_id = ''m1'', r_rating = 5\<rparr>,
    \<lparr>r_user_id = ''u0'', r_target_type = ''manifesto'', r_target_id = ''m1'', r_rating = 5\<rparr>]
     = filter (\<lambda>r. r_target_type r = ''manifesto'' \<and> r_target_id r = ''m1'')
         (ratings db_rated)
   \<and> ratings_summary None db_rated ''m1''
       = Reply 200 [(''average'', Str ''4.7''), (''count'', Num 3)]
   \<and> tenths (14 / 3) = 47
   \<and> ratings_summary None db_rated ''m9''
       = Reply 200 [(''average'', Num 0), (''count'', Num 0)]"
proof -
  let ?rows = "[\<lparr>r_user_id = ''u1'', r_target_type = ''manifesto'', r_target_id = ''m1'',
                 r_rating = 4\<rparr>,
               \<lparr>r_user_id = ''u2'', r_target_type = ''manifesto'', r_target_id = ''m1'',
                 r_rating = 5\<rparr>,
               \<lparr>r_user_id = ''u0'', r_target_type = ''manifesto'', r_target_id = ''m1'',
                 r_rating = 5\<rparr>]"
  have 1: "?rows = filter (\<lambda>r. r_target_type r = ''manifesto'' \<and> r_target_id r = ''m1'')
         (ratings db_rated)"
    by (simp add: fixture_defs)
  have 2: "list_all (\<lambda>r. 0 \<le> r_rating r) ?rows" by simp
  have 3: "20 * sum_list (map r_rating ?rows) < 2 ^ 53" by simp
  have 4: "(14 / 3 :: rat) = of_int (sum_list (map r_rating ?rows)) / of_nat (length ?rows)"
    by simp
  have 5: "ratings_summary None db_rated ''m1''
       = Reply 200 [(''average'', Str ''4.7''), (''count'', Num 3)]"
    by code_simp
  have 6: "tenths (14 / 3) = 47" by code_simp
  have 7: "ratings_summary None db_rated ''m9''
       = Reply 200 [(''average'', Num 0), (''count'', Num 0)]"
    by code_simp
  from ratings_summary_mean [OF 1 2 3 4] 1 5 6 7 show ?thesis by simp
qed

text \<open>
  Claim C9 as stated fails where the exact mean lies halfway between two tenths. Eleven
  ratings of 1 and nine of 2 have the mean 1.45 and the summary prints 1.4, while three
  ratings of 1 and one of 2 have the mean 1.25 and the summary prints 1.3: the first is
  not the mean rounded with halves up (that is 1.5), the second is not the mean rounded
  with halves to the even digit or down (that is 1.2).
\<close>

theorem ratings_summary_halves_counterexample:
  "map r_rating (filter (\<lambda>r. r_target_type r = ''manifesto'' \<and> r_target_id r = ''m3'')
      (ratings db_halves)) = replicate 11 1 @ replicate 9 2
   \<and> ratings_summary None db_halves ''m3''
       = Reply 200 [(''average'', Str ''1.4''), (''count'', Num 20)]
   \<and> tenths (29 / 20) = 15
   \<and> map r_rating (filter (\<lambda>r. r_target_type r = ''manifesto'' \<and> r_target_id r = ''m4'')
      (ratings db_halves)) = [1, 1, 1, 2]
   \<and> ratings_summary None db_halves ''m4''
       = Reply 200 [(''average'', Str ''1.3''), (''count'', Num 4)]
   \<and> round_half_even (10 * (5 / 4)) = 12"
proof -
  have summary: "ratings_summary None db_halves t
      = Reply 200 [(''average'', Str (toFixed1 (js_div (of_int (sum_list vs))
                      (of_nat (length vs))))), (''count'', Num (int (length vs)))]"
    if vs: "map r_rating (filter (\<lambda>r. r_target_type r = ''manifesto'' \<and> r_target_id r = t)
              (ratings db_halves)) = vs"
      and ok: "list_all (\<lambda>v. 0 \<le> v) vs" "sum_list vs < 2 ^ 53" "vs \<noteq> []"
    for t vs
  proof -
    let ?rows = "filter (\<lambda>r. r_target_type r = ''manifesto'' \<and> r_target_id r = t)
                   (ratings db_halves)"
    from ok(1) have "list_all (\<lambda>r. 0 \<le> r_rating r) ?rows"
      unfolding vs [symmetric] by (simp add: list.pred_map comp_def)
    with total_exact [of ?rows 0] ok(2)
    have total: "foldl (\<lambda>sum r. js_add sum (of_int (r_rating r))) 0 ?rows = of_int (sum_list vs)"
      by (simp add: vs)
    have len: "length ?rows = length vs" using arg_cong [OF vs, of length] by simp
    with ok(3) have "?rows \<noteq> []" by auto
    with total len show ?thesis by (simp add: ratings_summary_def Let_def)
  qed
  have m3: "map r_rating (filter (\<lambda>r. r_target_type r = ''manifesto'' \<and> r_target_id r = ''m3'')
      (ratings db_halves)) = replicate 11 1 @ replicate 9 2"
    by code_simp
  have m4: "map r_rating (filter (\<lambda>r. r_target_type r = ''manifesto'' \<and> r_target_id r = ''m4'')
      (ratings db_halves)) = [1, 1, 1, 2]"
    by code_simp
  have ok3: "list_all (\<lambda>v. 0 \<le> v) (replicate 11 1 @ replicate 9 (2::int))"
    "sum_list (replicate 11 1 @ replicate 9 (2::int)) < 2 ^ 53"
    "replicate 11 1 @ replicate 9 (2::int) \<noteq> []"
    by code_simp+
  have v3: "sum_list (replicate 11 1 @ replicate 9 (2::int)) = 29"
    "length (replicate 11 1 @ replicate 9 (2::int)) = 20"
    by code_simp+
  have ok4: "list_all (\<lambda>v. 0 \<le> v) [1, 1, 1, 2::int]" "sum_list [1, 1, 1, 2::int] < 2 ^ 53"
    "[1, 1, 1, 2::int] \<noteq> []"
    by simp_all
  have "ratings_summary None db_halves ''m3''
       = Reply 200 [(''average'', Str ''1.4''), (''count'', Num 20)]"
    using summary [OF m3 ok3] average_halfway by (simp only: v3) simp
  moreover have "ratings_summary None db_halves ''m4''
       = Reply 200 [(''average'', Str ''1.3''), (''count'', Num 4)]"
    using summary [OF m4 ok4] average_halfway by simp
  moreover have "tenths (29 / 20) = 15" "round_half_even (10 * (5 / 4)) = 12"
    by code_simp+
  ultimately show ?thesis using m3 m4 by simp
qed

end
